theory Spec2Isabelle
  imports Complex_Main
begin

section \<open>The training script \<^verbatim>\<open>main.py\<close> of SignalNoiseGradients\<close>

text \<open>
  \<^verbatim>\<open>main.py\<close> holds one function, \<^verbatim>\<open>run_experiment(hparams)\<close>, and the script
  body that calls it twice (plain gradients, then signal-to-noise gradients). The function
  talks to collaborators that live in the package \<^verbatim>\<open>sngrad\<close> and in third-party
  libraries: the learning-rate search, the data server, the model, the one-hot encoder, the
  evaluator, the TensorBoard writer, the clock and the run-log file.

  The embedding keeps the control flow of \<^verbatim>\<open>run_experiment\<close> as it is written and
  makes its effects explicit:
  \<^item> every call that leaves the function (a collaborator, the file, the writer,
    \<^verbatim>\<open>print\<close>) is appended, in program order, to a list of events, the world;
  \<^item> the model object, which \<^verbatim>\<open>model.step\<close> mutates, is a value threaded through
    the loop;
  \<^item> the dictionary \<^verbatim>\<open>hparams\<close>, which the function writes to, is returned updated;
  \<^item> an exception is a value of \<open>py_error\<close>, returned with the world as it was when
    the exception left the function.
  The collaborators are parameters, collected in a record \<open>env\<close>.
\<close>

subsection \<open>The hyperparameter dictionary\<close>

text \<open>
  The dictionary literal of the script (lines 87 to 107) fixes the keys and the kind of
  value under each. The nested dictionary under \<^verbatim>\<open>"lr_search"\<close> has a key
  \<^verbatim>\<open>"num_epochs"\<close> of its own, here \<open>num_epochs_lr\<close>. Python's \<^verbatim>\<open>None\<close> is
  \<open>None\<close>; floats are modelled as reals.
\<close>

record lr_search_params =
  lr_min :: "real option"
  lr_max :: "real option"
  num_steps :: int
  num_epochs_lr :: int

record hparams =
  dataset :: string
  layer_sizes :: "int list"
  lr_search :: lr_search_params
  step_size :: "real option"
  num_epochs :: int
  batch_size :: int
  num_targets :: int
  num_workers :: int
  stats_every_num_epochs :: int
  optimizer :: "string option"
  device :: string

text \<open>An f-string prints \<^verbatim>\<open>None\<close> as the text \<^verbatim>\<open>None\<close> and a string as itself.\<close>

definition optimizer_str :: "string option \<Rightarrow> string" where
  "optimizer_str v = (case v of None \<Rightarrow> ''None'' | Some s \<Rightarrow> s)"

subsection \<open>Errors, events and collaborators\<close>

text \<open>
  \<open>ZeroDivisionError\<close> is what \<^verbatim>\<open>(epoch + 1) % stats_every_num_epochs\<close> raises for
  a cadence of zero. \<open>SearchFailed\<close> stands for any exception that leaves
  \<^verbatim>\<open>learning_rate_search\<close>.
\<close>

datatype py_error = ZeroDivisionError | SearchFailed

datatype stream = TrainingStream | TestStream

datatype ('x, 'oh) event =
    SetRandomSeeds int
  | FileOpen string
  | JaxConfigUpdate string string
  | LearningRateSearch hparams
  | Print string
  | DataServerInit hparams
  | GetTrainingDataloader
  | GetTestDataloader
  | ModelInit hparams
  | SummaryWriterInit string
  | AddInputSamples string
  | ModelStep 'x 'oh real
  | AddScalar string real int
  | CompLossAccuracy stream
  | FileWrite string
  | FileFlush
  | WriterClose
  | FileClose

text \<open>
  The collaborators. \<open>model_step\<close> gives, for the state of the model object and the
  arguments of \<^verbatim>\<open>model.step(x, y, step_size)\<close>, the value the call returns and the
  state it leaves in the object. \<open>epoch_time\<close> is the wall-clock difference measured
  around the batches of an epoch. The formatting functions stand for Python's float and
  integer formatting and for \<^verbatim>\<open>json.dumps\<close>.

  What the specification says of the collaborators is built into their types: a data
  loader yields the same finite sequence of batches each time it is iterated (section 6),
  the evaluator changes neither the model nor the stream (section 4.4), and the search has
  no effect but the value it returns or the exception it raises (section 4.5). Only the
  search is taken to raise.
\<close>

record ('m, 'x, 'y, 'oh, 'r) env =
  learning_rate_search :: "hparams \<Rightarrow> py_error + real"
  training_dataloader :: "hparams \<Rightarrow> ('x \<times> 'y) list"
  test_dataloader :: "hparams \<Rightarrow> ('x \<times> 'y) list"
  Model_init :: "hparams \<Rightarrow> 'm"
  one_hot :: "'y \<Rightarrow> int \<Rightarrow> 'oh"
  model_step :: "'m \<Rightarrow> 'x \<Rightarrow> 'oh \<Rightarrow> real \<Rightarrow> 'r \<times> 'm"
  comp_loss_accuracy :: "'m \<Rightarrow> ('x \<times> 'y) list \<Rightarrow> real \<times> real"
  epoch_time :: "nat \<Rightarrow> real"
  str_int :: "int \<Rightarrow> string"
  str_float :: "real \<Rightarrow> string"
  fmt_2f :: "real \<Rightarrow> string"
  fmt_4f :: "real \<Rightarrow> string"
  json_dumps :: "hparams \<Rightarrow> string"

record ('x, 'oh) outcome =
  hparams_out :: hparams
  trace :: "('x, 'oh) event list"
  raised :: "py_error option"

subsection \<open>\<^verbatim>\<open>run_experiment\<close>\<close>

text \<open>
  Lines 59 to 61: one pass over the training batches. The label is one-hot encoded, the
  model steps, and the value the call returns is bound to nothing.
\<close>

fun train_batches ::
  "('m, 'x, 'y, 'oh, 'r) env \<Rightarrow> int \<Rightarrow> real \<Rightarrow> ('x \<times> 'y) list \<Rightarrow> 'm \<Rightarrow>
     ('x, 'oh) event list \<Rightarrow> 'm \<times> ('x, 'oh) event list" where
  "train_batches E nt lr [] m w = (m, w)"
| "train_batches E nt lr ((x, y) # bs) m w =
     (let y' = one_hot E y nt;
          m' = snd (model_step E m x y' lr)
      in train_batches E nt lr bs m' (w @ [ModelStep x y' lr]))"

text \<open>Line 76: the text of one record of the run log.\<close>

definition message ::
  "('m, 'x, 'y, 'oh, 'r) env \<Rightarrow> nat \<Rightarrow> real \<Rightarrow> real \<Rightarrow> real \<Rightarrow> real \<Rightarrow> real \<Rightarrow> string" where
  "message E epoch t training_loss test_loss training_accuracy test_accuracy =
     str_int E (int epoch) @ '' '' @ fmt_2f E t @ '' '' @ fmt_4f E training_loss @ '' '' @
     fmt_4f E test_loss @ '' '' @ fmt_4f E training_accuracy @ '' '' @ fmt_4f E test_accuracy"

text \<open>Lines 68 to 79: the body of the cadence test.\<close>

definition write_stats ::
  "('m, 'x, 'y, 'oh, 'r) env \<Rightarrow> ('x \<times> 'y) list \<Rightarrow> ('x \<times> 'y) list \<Rightarrow> nat \<Rightarrow> real \<Rightarrow> 'm \<Rightarrow>
     ('x, 'oh) event list \<Rightarrow> ('x, 'oh) event list" where
  "write_stats E training_generator test_generator epoch t m w =
     (let (training_loss, training_accuracy) = comp_loss_accuracy E m training_generator;
          w = w @ [CompLossAccuracy TrainingStream];
          (test_loss, test_accuracy) = comp_loss_accuracy E m test_generator;
          w = w @ [CompLossAccuracy TestStream];
          w = w @ [AddScalar ''Accuracy/train'' training_accuracy (int epoch)];
          w = w @ [AddScalar ''Accuracy/test'' test_accuracy (int epoch)];
          w = w @ [AddScalar ''Loss/train'' training_loss (int epoch)];
          w = w @ [AddScalar ''Loss/test'' test_loss (int epoch)];
          msg = message E epoch t training_loss test_loss training_accuracy test_accuracy;
          w = w @ [FileWrite (msg @ [CHR 0x0A])];
          w = w @ [FileFlush];
          w = w @ [Print msg]
      in w)"

text \<open>
  Lines 57 to 79: one epoch. Python's \<^verbatim>\<open>%\<close> on integers takes the sign of the divisor,
  as \<open>mod\<close> on \<open>int\<close> does, and raises for a divisor of zero, where \<open>mod\<close> would return
  its first argument.
\<close>

definition run_epoch ::
  "('m, 'x, 'y, 'oh, 'r) env \<Rightarrow> ('x \<times> 'y) list \<Rightarrow> ('x \<times> 'y) list \<Rightarrow> real \<Rightarrow> int \<Rightarrow> int \<Rightarrow>
     nat \<Rightarrow> 'm \<Rightarrow> ('x, 'oh) event list \<Rightarrow> 'm \<times> ('x, 'oh) event list \<times> py_error option" where
  "run_epoch E training_generator test_generator lr nt c epoch m w =
     (let (m, w) = train_batches E nt lr training_generator m w;
          t = epoch_time E epoch;
          w = w @ [AddScalar ''Epoch_time'' t (int epoch)]
      in if c = 0 then (m, w, Some ZeroDivisionError)
         else if (int epoch + 1) mod c = 0
         then (m, write_stats E training_generator test_generator epoch t m w, None)
         else (m, w, None))"

text \<open>Line 55: the loop over the epochs, left at the first exception.\<close>

fun run_epochs ::
  "('m, 'x, 'y, 'oh, 'r) env \<Rightarrow> ('x \<times> 'y) list \<Rightarrow> ('x \<times> 'y) list \<Rightarrow> real \<Rightarrow> int \<Rightarrow> int \<Rightarrow>
     nat list \<Rightarrow> 'm \<Rightarrow> ('x, 'oh) event list \<Rightarrow> 'm \<times> ('x, 'oh) event list \<times> py_error option" where
  "run_epochs E training_generator test_generator lr nt c [] m w = (m, w, None)"
| "run_epochs E training_generator test_generator lr nt c (epoch # epochs) m w =
     (case run_epoch E training_generator test_generator lr nt c epoch m w of
        (m', w', Some err) \<Rightarrow> (m', w', Some err)
      | (m', w', None) \<Rightarrow> run_epochs E training_generator test_generator lr nt c epochs m' w')"

text \<open>Lines 27 to 32: seeds, the run-log file, the device.\<close>

definition init_world :: "hparams \<Rightarrow> ('x, 'oh) event list" where
  "init_world hparams =
     (let w = [SetRandomSeeds 420];
          w = w @ [FileOpen (optimizer_str (optimizer hparams) @ ''_training.txt'')];
          w = (if device hparams = ''cpu''
               then w @ [JaxConfigUpdate ''jax_platform_name'' ''cpu''] else w)
      in w)"

text \<open>
  Lines 34 to 40: the step size of the run. With a step size of \<^verbatim>\<open>None\<close> the search
  is called and its result is stored in the dictionary; line 40 then reads the dictionary.
  The result is the step size, the dictionary and the world, or the exception of the
  search with the world at that point.
\<close>

definition resolve_step_size ::
  "('m, 'x, 'y, 'oh, 'r) env \<Rightarrow> hparams \<Rightarrow> ('x, 'oh) event list \<Rightarrow>
     (('x, 'oh) event list \<times> py_error) + (real \<times> hparams \<times> ('x, 'oh) event list)" where
  "resolve_step_size E hparams w =
     (case step_size hparams of
        None \<Rightarrow>
          (case learning_rate_search E hparams of
             Inl err \<Rightarrow> Inl (w @ [LearningRateSearch hparams], err)
           | Inr best_lr \<Rightarrow>
               Inr (best_lr, hparams\<lparr>step_size := Some best_lr\<rparr>,
                    w @ [LearningRateSearch hparams] @
                      [Print (''best_lr = '' @ str_float E best_lr)]))
      | Some s \<Rightarrow> Inr (s, hparams, w))"

text \<open>Lines 45 to 53: data server, model, writer, input samples.\<close>

definition setup_world :: "hparams \<Rightarrow> ('x, 'oh) event list \<Rightarrow> ('x, 'oh) event list" where
  "setup_world hparams w =
     (let w = w @ [DataServerInit hparams];
          w = w @ [GetTrainingDataloader];
          w = w @ [GetTestDataloader];
          w = w @ [ModelInit hparams];
          w = w @ [SummaryWriterInit (''_training_'' @ optimizer_str (optimizer hparams))];
          w = w @ [AddInputSamples ''test'']
      in w)"

definition run_experiment ::
  "('m, 'x, 'y, 'oh, 'r) env \<Rightarrow> hparams \<Rightarrow> ('x, 'oh) outcome" where
  "run_experiment E hparams =
     (case resolve_step_size E hparams (init_world hparams) of
        Inl (w, err) \<Rightarrow> \<lparr>hparams_out = hparams, trace = w, raised = Some err\<rparr>
      | Inr (lr, hparams', w) \<Rightarrow>
          (let training_generator = training_dataloader E hparams';
               test_generator = test_dataloader E hparams';
               model = Model_init E hparams';
               w = setup_world hparams' w
           in case run_epochs E training_generator test_generator lr (num_targets hparams')
                     (stats_every_num_epochs hparams') [0..<nat (num_epochs hparams')] model w of
                (m, w, Some err) \<Rightarrow> \<lparr>hparams_out = hparams', trace = w, raised = Some err\<rparr>
              | (m, w, None) \<Rightarrow>
                  \<lparr>hparams_out = hparams', trace = w @ [WriterClose] @ [FileClose],
                   raised = None\<rparr>))"

subsection \<open>Projections of the world\<close>

text \<open>
  What each collaborator has seen, in order: the calls of \<^verbatim>\<open>jax.config.update\<close>,
  the calls of the learning-rate search, the calls of \<^verbatim>\<open>model.step\<close>, the scalars
  handed to the TensorBoard writer, the streams the evaluator was run on, and the strings
  written to the run-log file.
\<close>

definition jax_config_updates :: "('x, 'oh) event list \<Rightarrow> (string \<times> string) list" where
  "jax_config_updates w = [(k, v). JaxConfigUpdate k v \<leftarrow> w]"

definition searches :: "('x, 'oh) event list \<Rightarrow> hparams list" where
  "searches w = [h. LearningRateSearch h \<leftarrow> w]"

definition model_steps :: "('x, 'oh) event list \<Rightarrow> ('x \<times> 'oh \<times> real) list" where
  "model_steps w = [(x, y, s). ModelStep x y s \<leftarrow> w]"

definition scalars :: "('x, 'oh) event list \<Rightarrow> (string \<times> real \<times> int) list" where
  "scalars w = [(tag, v, i). AddScalar tag v i \<leftarrow> w]"

definition evaluations :: "('x, 'oh) event list \<Rightarrow> stream list" where
  "evaluations w = [s. CompLossAccuracy s \<leftarrow> w]"

definition run_log :: "('x, 'oh) event list \<Rightarrow> string list" where
  "run_log w = [s. FileWrite s \<leftarrow> w]"

subsection \<open>The run, epoch by epoch\<close>

text \<open>
  The state of the model object after one pass over the batches, and after \<open>k\<close> epochs of
  a run whose dictionary (after line 37) is \<open>hparams\<close> and whose step size is \<open>lr\<close>.
\<close>

definition train_model ::
  "('m, 'x, 'y, 'oh, 'r) env \<Rightarrow> int \<Rightarrow> real \<Rightarrow> ('x \<times> 'y) list \<Rightarrow> 'm \<Rightarrow> 'm" where
  "train_model E nt lr bs m = fst (train_batches E nt lr bs m [])"

definition model_after :: "('m, 'x, 'y, 'oh, 'r) env \<Rightarrow> hparams \<Rightarrow> real \<Rightarrow> nat \<Rightarrow> 'm" where
  "model_after E hparams lr k =
     ((train_model E (num_targets hparams) lr (training_dataloader E hparams)) ^^ k)
       (Model_init E hparams)"

text \<open>The steps of one epoch, as \<^verbatim>\<open>model.step\<close> sees them.\<close>

definition step_events ::
  "('m, 'x, 'y, 'oh, 'r) env \<Rightarrow> int \<Rightarrow> real \<Rightarrow> ('x \<times> 'y) list \<Rightarrow> ('x, 'oh) event list" where
  "step_events E nt lr bs = map (\<lambda>(x, y). ModelStep x (one_hot E y nt) lr) bs"

text \<open>
  The events of epoch \<open>epoch\<close> of a run that does not raise there, the model object
  being \<open>m\<close> when the epoch starts.
\<close>

definition epoch_events ::
  "('m, 'x, 'y, 'oh, 'r) env \<Rightarrow> hparams \<Rightarrow> real \<Rightarrow> nat \<Rightarrow> 'm \<Rightarrow> ('x, 'oh) event list" where
  "epoch_events E hparams lr epoch m =
     fst (snd (run_epoch E (training_dataloader E hparams) (test_dataloader E hparams) lr
       (num_targets hparams) (stats_every_num_epochs hparams) epoch m []))"

text \<open>
  The cadence test of line 66 in the words of the specification: the 1-based index of the
  epoch is a multiple of the cadence.
\<close>

definition on_cadence :: "int \<Rightarrow> nat \<Rightarrow> bool" where
  "on_cadence c epoch \<longleftrightarrow> c dvd int epoch + 1"

text \<open>The events of lines 34 to 37, and of lines 45 to 53.\<close>

definition lr_search_events :: "('m, 'x, 'y, 'oh, 'r) env \<Rightarrow> hparams \<Rightarrow> ('x, 'oh) event list" where
  "lr_search_events E hparams =
     (case resolve_step_size E hparams [] of Inl (w, err) \<Rightarrow> w | Inr (lr, hparams', w) \<Rightarrow> w)"

definition setup_events :: "hparams \<Rightarrow> ('x, 'oh) event list" where
  "setup_events hparams = setup_world hparams []"

text \<open>
  The epochs of a run of \<open>hparams\<close> that fall on the cadence, the record the run log
  gets at such an epoch and the scalars the writer gets there. Both are computed on the
  model object as the epoch's batches have left it.
\<close>

definition cadence_epochs :: "hparams \<Rightarrow> nat list" where
  "cadence_epochs hparams =
     filter (on_cadence (stats_every_num_epochs hparams)) [0..<nat (num_epochs hparams)]"

definition log_record :: "('m, 'x, 'y, 'oh, 'r) env \<Rightarrow> hparams \<Rightarrow> real \<Rightarrow> nat \<Rightarrow> string" where
  "log_record E hparams lr epoch =
     (let m = model_after E hparams lr (Suc epoch);
          (training_loss, training_accuracy) = comp_loss_accuracy E m (training_dataloader E hparams);
          (test_loss, test_accuracy) = comp_loss_accuracy E m (test_dataloader E hparams)
      in message E epoch (epoch_time E epoch) training_loss test_loss training_accuracy
           test_accuracy @ [CHR 0x0A])"

definition stats_scalars ::
  "('m, 'x, 'y, 'oh, 'r) env \<Rightarrow> hparams \<Rightarrow> real \<Rightarrow> nat \<Rightarrow> (string \<times> real \<times> int) list" where
  "stats_scalars E hparams lr epoch =
     (let m = model_after E hparams lr (Suc epoch);
          (training_loss, training_accuracy) = comp_loss_accuracy E m (training_dataloader E hparams);
          (test_loss, test_accuracy) = comp_loss_accuracy E m (test_dataloader E hparams)
      in [(''Accuracy/train'', training_accuracy, int epoch),
          (''Accuracy/test'', test_accuracy, int epoch),
          (''Loss/train'', training_loss, int epoch),
          (''Loss/test'', test_loss, int epoch)])"

subsection \<open>The keys of the dictionary and the configuration of the specification\<close>

text \<open>
  The keys of the dictionary literal of lines 87 to 107, in the order of the literal, and
  the keys of the dictionary under \<^verbatim>\<open>"lr_search"\<close>.
\<close>

definition hparams_keys :: "string list" where
  "hparams_keys =
     [''dataset'', ''layer_sizes'', ''lr_search'', ''step_size'', ''num_epochs'', ''batch_size'',
      ''num_targets'', ''num_workers'', ''stats_every_num_epochs'', ''optimizer'', ''device'']"

definition lr_search_keys :: "string list" where
  "lr_search_keys = [''lr_min'', ''lr_max'', ''num_steps'', ''num_epochs'']"

text \<open>
  The fields that section 6 of the specification gives the configuration, in its words:
  step size, number of epochs, batch size, shard count for SNG, clip bound \<open>r_max\<close>,
  stabilizing constant \<open>\<epsilon>\<close>, the two ends of the bracket, number of candidates,
  trial-epoch count and device selector.
\<close>

datatype config_field =
    StepSize | NumberOfEpochs | BatchSize | ShardCount | ClipBound | StabilizingConstant
  | BracketLrMin | BracketLrMax | NumberOfCandidates | TrialEpochCount | DeviceSelector

definition spec_configuration :: "config_field list" where
  "spec_configuration =
     [StepSize, NumberOfEpochs, BatchSize, ShardCount, ClipBound, StabilizingConstant,
      BracketLrMin, BracketLrMax, NumberOfCandidates, TrialEpochCount, DeviceSelector]"

text \<open>
  Which field of the specification a key of the dictionary holds, if any. The keys
  \<^verbatim>\<open>dataset\<close>, \<^verbatim>\<open>layer_sizes\<close>, \<^verbatim>\<open>num_targets\<close>, \<^verbatim>\<open>num_workers\<close>,
  \<^verbatim>\<open>stats_every_num_epochs\<close> and \<^verbatim>\<open>optimizer\<close> hold none of them, and
  \<^verbatim>\<open>lr_search\<close> holds the nested dictionary.
\<close>

definition field_of_key :: "string \<Rightarrow> config_field option" where
  "field_of_key k =
     (if k = ''step_size'' then Some StepSize
      else if k = ''num_epochs'' then Some NumberOfEpochs
      else if k = ''batch_size'' then Some BatchSize
      else if k = ''device'' then Some DeviceSelector
      else None)"

definition field_of_lr_search_key :: "string \<Rightarrow> config_field option" where
  "field_of_lr_search_key k =
     (if k = ''lr_min'' then Some BracketLrMin
      else if k = ''lr_max'' then Some BracketLrMax
      else if k = ''num_steps'' then Some NumberOfCandidates
      else if k = ''num_epochs'' then Some TrialEpochCount
      else None)"

definition hparams_fields :: "config_field list" where
  "hparams_fields =
     List.map_filter field_of_key hparams_keys @
     List.map_filter field_of_lr_search_key lr_search_keys"

subsection \<open>The script\<close>

text \<open>
  Lines 87 to 107: the dictionary literal. Lines 109 to 119: the two experiments, run on
  the same dictionary object. An exception of the first experiment ends the script.
\<close>

definition script_hparams :: hparams where
  "script_hparams =
     \<lparr>dataset = ''cifar10'', layer_sizes = [3 * 32 ^ 2, 512, 512, 10],
      lr_search = \<lparr>lr_min = None, lr_max = None, num_steps = 40, num_epochs_lr = 2\<rparr>,
      step_size = None, num_epochs = 100, batch_size = 256, num_targets = 10, num_workers = 4,
      stats_every_num_epochs = 10, optimizer = None, device = ''tpu''\<rparr>"

text \<open>
  Lines 110 and 111, and again 116 and 117: the two updates of the dictionary before an
  experiment.
\<close>

definition select_optimizer :: "string \<Rightarrow> hparams \<Rightarrow> hparams" where
  "select_optimizer name hparams =
     (let hparams = hparams\<lparr>optimizer := Some name\<rparr>;
          hparams = hparams\<lparr>lr_search := (lr_search hparams)\<lparr>lr_min := Some (1 / 2), lr_max := Some 2\<rparr>\<rparr>
      in hparams)"

definition main :: "('m, 'x, 'y, 'oh, 'r) env \<Rightarrow> ('x, 'oh) outcome" where
  "main E =
     (let hparams = script_hparams;
          w = [Print ''Experiment SGD''];
          hparams = select_optimizer ''sgd'' hparams;
          w = w @ [Print (json_dumps E hparams)];
          r = run_experiment E hparams;
          hparams = hparams_out r;
          w = w @ trace r
      in case raised r of
           Some err \<Rightarrow> \<lparr>hparams_out = hparams, trace = w, raised = Some err\<rparr>
         | None \<Rightarrow>
             (let w = w @ [Print ''Experiment SNG''];
                  hparams = select_optimizer ''sng'' hparams;
                  w = w @ [Print (json_dumps E hparams)];
                  r = run_experiment E hparams
              in \<lparr>hparams_out = hparams_out r, trace = w @ trace r, raised = raised r\<rparr>))"

subsection \<open>The phases of a run\<close>

text \<open>
  The state machine of the specification, \<^verbatim>\<open>INIT \<rightarrow> (optional LR_SEARCH) \<rightarrow>
  RUN_EPOCH[1..N] \<rightarrow> DONE\<close>, as a monitor of the world: \<open>next_phase p e\<close> is the phase
  the run is in after the event \<open>e\<close> when it was in phase \<open>p\<close> before, and \<open>None\<close> when
  the event has no place there. Seeds, the run-log file and the device belong to
  \<open>INIT\<close>; the call of the search and the print of its result to \<open>LR_SEARCH\<close>; the
  steps, the scalars, the evaluations and the records to \<open>RUN_EPOCH\<close>; closing the
  writer and the file to \<open>DONE\<close>. The construction of the data server, the model and the
  writer (lines 45 to 53), which the code does after the search and before the first
  epoch, is a phase \<open>SETUP\<close> of its own.
\<close>

datatype phase = INIT | LR_SEARCH | SETUP | RUN_EPOCH | DONE

definition next_phase :: "phase \<Rightarrow> ('x, 'oh) event \<Rightarrow> phase option" where
  "next_phase p e =
     (case e of
        SetRandomSeeds seed \<Rightarrow> if p = INIT then Some INIT else None
      | FileOpen name \<Rightarrow> if p = INIT then Some INIT else None
      | JaxConfigUpdate k v \<Rightarrow> if p = INIT then Some INIT else None
      | LearningRateSearch h \<Rightarrow> if p = INIT then Some LR_SEARCH else None
      | Print s \<Rightarrow>
          if p = LR_SEARCH then Some LR_SEARCH
          else if p = RUN_EPOCH then Some RUN_EPOCH else None
      | DataServerInit h \<Rightarrow> if p = INIT \<or> p = LR_SEARCH then Some SETUP else None
      | GetTrainingDataloader \<Rightarrow> if p = SETUP then Some SETUP else None
      | GetTestDataloader \<Rightarrow> if p = SETUP then Some SETUP else None
      | ModelInit h \<Rightarrow> if p = SETUP then Some SETUP else None
      | SummaryWriterInit s \<Rightarrow> if p = SETUP then Some SETUP else None
      | AddInputSamples s \<Rightarrow> if p = SETUP then Some SETUP else None
      | ModelStep x y lr \<Rightarrow> if p = SETUP \<or> p = RUN_EPOCH then Some RUN_EPOCH else None
      | AddScalar tag v i \<Rightarrow> if p = SETUP \<or> p = RUN_EPOCH then Some RUN_EPOCH else None
      | CompLossAccuracy s \<Rightarrow> if p = RUN_EPOCH then Some RUN_EPOCH else None
      | FileWrite s \<Rightarrow> if p = RUN_EPOCH then Some RUN_EPOCH else None
      | FileFlush \<Rightarrow> if p = RUN_EPOCH then Some RUN_EPOCH else None
      | WriterClose \<Rightarrow> if p = SETUP \<or> p = RUN_EPOCH then Some DONE else None
      | FileClose \<Rightarrow> if p = DONE then Some DONE else None)"

text \<open>The phase after each event of a world, from phase \<open>p\<close>.\<close>

fun phases_from :: "phase \<Rightarrow> ('x, 'oh) event list \<Rightarrow> phase list option" where
  "phases_from p [] = Some []"
| "phases_from p (e # w) =
     (case next_phase p e of
        None \<Rightarrow> None
      | Some q \<Rightarrow> (case phases_from q w of None \<Rightarrow> None | Some ps \<Rightarrow> Some (q # ps)))"

text \<open>From phase \<open>p\<close> the world \<open>w\<close> goes through the phases \<open>ps\<close> and ends in \<open>q\<close>.\<close>

definition goes :: "phase \<Rightarrow> ('x, 'oh) event list \<Rightarrow> phase list \<Rightarrow> phase \<Rightarrow> bool" where
  "goes p w ps q \<longleftrightarrow> phases_from p w = Some ps \<and> last (p # ps) = q"

subsection \<open>The optimizer step and the learning-rate search of the specification\<close>

text \<open>
  The package \<^verbatim>\<open>sngrad\<close>, which holds \<^verbatim>\<open>Model.step\<close> and
  \<^verbatim>\<open>learning_rate_search\<close>, is not among the sources. The definitions of this
  subsection follow sections 4.2, 4.5 and 7 of the specification; floats are reals.
\<close>

text \<open>
  Modelled from the spec: the failures of section 7, missing with \<^verbatim>\<open>sngrad\<close>.
\<close>

datatype spec_error = ConfigurationError | NumericInstability | SearchExhausted

text \<open>
  Modelled from the spec: the clipping of section 4.2 (``clips \<open>r\<close> elementwise to a
  configured magnitude bound \<open>[-r_max, r_max]\<close>''), missing with \<^verbatim>\<open>sngrad.model\<close>.
\<close>

definition clip :: "real \<Rightarrow> real \<Rightarrow> real \<Rightarrow> real" where
  "clip x lo hi = min (max x lo) hi"

text \<open>
  Modelled from the spec: the signal-to-noise ratio \<open>r = mean / (std + \<epsilon>)\<close> of one
  element, clipped (section 4.2), missing with \<^verbatim>\<open>sngrad.model\<close>.
\<close>

definition sng_ratio :: "real \<Rightarrow> real \<Rightarrow> real \<Rightarrow> real \<Rightarrow> real" where
  "sng_ratio eps r_max mean std = clip (mean / (std + eps)) (- r_max) r_max"

text \<open>
  Modelled from the spec: the update \<open>param' = param - step_size * r\<close> of one tensor,
  elementwise (section 4.2), missing with \<^verbatim>\<open>sngrad.model\<close>. A tensor is the list of
  its elements; the gradient statistics of a tensor are its list of means and its list of
  standard deviations.
\<close>

definition sng_tensor ::
  "real \<Rightarrow> real \<Rightarrow> real \<Rightarrow> real list \<Rightarrow> real list \<times> real list \<Rightarrow> real list" where
  "sng_tensor eta eps r_max param stats =
     map (\<lambda>(p, mean, std). p - eta * sng_ratio eps r_max mean std)
       (zip param (zip (fst stats) (snd stats)))"

text \<open>
  Modelled from the spec: the SNG optimizer step \<open>step(params, batch, step_size)\<close> of
  section 4.2, missing with \<^verbatim>\<open>sngrad.model\<close>. The gradient estimator, which rests on
  automatic differentiation, is the parameter \<open>estimate\<close>. A shard count of at most one
  and a step size that is not positive are configuration errors.
\<close>

definition sng_step ::
  "(real list list \<Rightarrow> 'b \<Rightarrow> int \<Rightarrow> (real list \<times> real list) list) \<Rightarrow> int \<Rightarrow> real \<Rightarrow> real \<Rightarrow>
     real list list \<Rightarrow> 'b \<Rightarrow> real \<Rightarrow> spec_error + real list list" where
  "sng_step estimate num_shards eps r_max params batch eta =
     (if num_shards \<le> 1 then Inl ConfigurationError
      else if eta \<le> 0 then Inl ConfigurationError
      else Inr (map (\<lambda>(param, stats). sng_tensor eta eps r_max param stats)
             (zip params (estimate params batch num_shards))))"

text \<open>
  Modelled from the spec: the candidates of the learning-rate search, ``log-uniformly
  spaced across \<open>[lr_min, lr_max]\<close>'' with both ends among them (section 4.5 and scenario
  B of section 8), missing with \<^verbatim>\<open>sngrad.lr_search\<close>. A single candidate is \<open>lr_min\<close>.
\<close>

definition lr_candidates :: "real \<Rightarrow> real \<Rightarrow> nat \<Rightarrow> real list" where
  "lr_candidates lo hi n =
     map (\<lambda>i. if n = 1 then lo else lo * (hi / lo) powr (real i / real (n - 1))) [0..<n]"

text \<open>
  Modelled from the spec: the choice among the candidates (section 4.5), missing with
  \<^verbatim>\<open>sngrad.lr_search\<close>. A candidate comes with its validation loss, \<open>None\<close> when the
  loss is not finite. The lowest loss wins, and the smaller step size among equal losses.
\<close>

fun best_candidate ::
  "(real \<times> real) option \<Rightarrow> (real \<times> real option) list \<Rightarrow> (real \<times> real) option" where
  "best_candidate best [] = best"
| "best_candidate best ((lr, None) # cs) = best_candidate best cs"
| "best_candidate None ((lr, Some loss) # cs) = best_candidate (Some (lr, loss)) cs"
| "best_candidate (Some (best_lr, best_loss)) ((lr, Some loss) # cs) =
     best_candidate
       (if loss < best_loss \<or> (loss = best_loss \<and> lr < best_lr)
        then Some (lr, loss) else Some (best_lr, best_loss)) cs"

text \<open>
  Modelled from the spec: \<open>search(lr_min, lr_max, num_candidates, trial_epochs)\<close> of
  section 4.5, missing with \<^verbatim>\<open>sngrad.lr_search\<close>. The trial training of a candidate
  and its evaluation are the parameter \<open>trial\<close>.
\<close>

definition search ::
  "(real \<Rightarrow> int \<Rightarrow> real option) \<Rightarrow> real \<Rightarrow> real \<Rightarrow> int \<Rightarrow> int \<Rightarrow> spec_error + real" where
  "search trial lo hi num_candidates trial_epochs =
     (if 0 < lo \<and> lo < hi \<and> 0 < num_candidates \<and> 0 < trial_epochs
      then (case best_candidate None
                  (map (\<lambda>lr. (lr, trial lr trial_epochs))
                    (lr_candidates lo hi (nat num_candidates))) of
              None \<Rightarrow> Inl SearchExhausted
            | Some (lr, loss) \<Rightarrow> Inr lr)
      else Inl ConfigurationError)"

text \<open>
  Modelled from the spec: \<^verbatim>\<open>learning_rate_search(hparams)\<close> as the search of section
  4.5 on the entries of \<^verbatim>\<open>hparams["lr_search"]\<close>, missing with
  \<^verbatim>\<open>sngrad.lr_search\<close>. Any failure is an exception to \<^verbatim>\<open>run_experiment\<close>.
\<close>

definition spec_learning_rate_search ::
  "(real \<Rightarrow> int \<Rightarrow> real option) \<Rightarrow> hparams \<Rightarrow> py_error + real" where
  "spec_learning_rate_search trial hparams =
     (case lr_min (lr_search hparams) of
        None \<Rightarrow> Inl SearchFailed
      | Some lo \<Rightarrow>
          (case lr_max (lr_search hparams) of
             None \<Rightarrow> Inl SearchFailed
           | Some hi \<Rightarrow>
               (case search trial lo hi (num_steps (lr_search hparams))
                       (num_epochs_lr (lr_search hparams)) of
                  Inl err \<Rightarrow> Inl SearchFailed
                | Inr lr \<Rightarrow> Inr lr)))"

subsection \<open>A small concrete run\<close>

text \<open>
  Collaborators and a dictionary small enough to run by hand: the model object is an
  integer that each step increases by the input of the batch, two training batches, one
  test batch, a search that answers \<open>1\<close>, two epochs and a cadence of two. The bracket of
  the search goes from \<open>1/2\<close> to \<open>2\<close>, with one candidate.
\<close>

definition demo_env :: "(int, int, int, int \<times> int, unit) env" where
  "demo_env =
     \<lparr>learning_rate_search = (\<lambda>h. Inr 1),
      training_dataloader = (\<lambda>h. [(1, 0), (2, 1)]),
      test_dataloader = (\<lambda>h. [(3, 1)]),
      Model_init = (\<lambda>h. 0),
      one_hot = (\<lambda>y n. (y, n)),
      model_step = (\<lambda>m x y lr. ((), m + x)),
      comp_loss_accuracy = (\<lambda>m bs. (of_int m, 0)),
      epoch_time = (\<lambda>e. 0),
      str_int = (\<lambda>i. ''i''),
      str_float = (\<lambda>v. ''f''),
      fmt_2f = (\<lambda>v. ''f2''),
      fmt_4f = (\<lambda>v. ''f4''),
      json_dumps = (\<lambda>h. ''{}'')\<rparr>"

definition demo_hparams :: hparams where
  "demo_hparams =
     \<lparr>dataset = ''mnist'', layer_sizes = [4, 2],
      lr_search = \<lparr>lr_min = Some (1 / 2), lr_max = Some 2, num_steps = 1, num_epochs_lr = 1\<rparr>,
      step_size = None, num_epochs = 2, batch_size = 1, num_targets = 2, num_workers = 1,
      stats_every_num_epochs = 2, optimizer = Some ''sgd'', device = ''tpu''\<rparr>"

text \<open>
  The same collaborators with the search of the specification, the validation loss of a
  candidate being the candidate itself; and the dictionary of the small run with a step
  size of \<open>5\<close> configured next to its bracket from \<open>1/2\<close> to \<open>2\<close>.
\<close>

definition spec_env :: "(int, int, int, int \<times> int, unit) env" where
  "spec_env = demo_env\<lparr>learning_rate_search := spec_learning_rate_search (\<lambda>lr k. Some lr)\<rparr>"

definition pinned_hparams :: hparams where
  "pinned_hparams = demo_hparams\<lparr>step_size := Some 5\<rparr>"

text \<open>
  Collaborators whose \<^verbatim>\<open>model.step\<close> returns a value: the same as above but for the
  step, which is the parameter. \<open>pure_env\<close> has a step that returns the new parameter and
  leaves the model object as it was; the step of \<open>stateful_env\<close> stores what it returns.
\<close>

definition int_env ::
  "(int \<Rightarrow> int \<Rightarrow> int \<times> int \<Rightarrow> real \<Rightarrow> int \<times> int) \<Rightarrow> (int, int, int, int \<times> int, int) env" where
  "int_env step =
     \<lparr>learning_rate_search = (\<lambda>h. Inr 1),
      training_dataloader = (\<lambda>h. [(1, 0), (2, 1)]),
      test_dataloader = (\<lambda>h. [(3, 1)]),
      Model_init = (\<lambda>h. 0),
      one_hot = (\<lambda>y n. (y, n)),
      model_step = step,
      comp_loss_accuracy = (\<lambda>m bs. (of_int m, 0)),
      epoch_time = (\<lambda>e. 0),
      str_int = (\<lambda>i. ''i''),
      str_float = (\<lambda>v. ''f''),
      fmt_2f = (\<lambda>v. ''f2''),
      fmt_4f = (\<lambda>v. ''f4''),
      json_dumps = (\<lambda>h. ''{}'')\<rparr>"

definition pure_env :: "(int, int, int, int \<times> int, int) env" where
  "pure_env = int_env (\<lambda>m x y lr. (m + x, m))"

definition stateful_env :: "(int, int, int, int \<times> int, int) env" where
  "stateful_env = int_env (\<lambda>m x y lr. (m + x, m + x))"

section \<open>Properties\<close>

subsection \<open>How the world grows\<close>


lemma train_batches_world:
  "train_batches E nt lr bs m w = (train_model E nt lr bs m, w @ step_events E nt lr bs)"
  unfolding train_model_def step_events_def
proof (induction bs arbitrary: m w)
  case Nil show ?case by simp
next
  case (Cons b bs)
  obtain x y where b: "b = (x, y)" by (cases b)
  show ?case unfolding b
    by (simp add: Let_def Cons.IH [of _ "w @ _"] Cons.IH [of _ "[_]"])
qed

lemma write_stats_world:
  "write_stats E tg te epoch t m w = w @ write_stats E tg te epoch t m []"
  by (simp add: write_stats_def Let_def split: prod.splits)

lemma run_epoch_world:
  assumes "c \<noteq> 0"
  shows "run_epoch E tg te lr nt c epoch m w =
    (train_model E nt lr tg m, w @ fst (snd (run_epoch E tg te lr nt c epoch m [])), None)"
  using assms
  by (simp add: run_epoch_def train_batches_world Let_def write_stats_world [of _ _ _ _ _ _ "_ @ _"]
      write_stats_world [of _ _ _ _ _ _ "[_]"])

lemma run_epoch_zero:
  "run_epoch E tg te lr nt 0 epoch m w =
    (train_model E nt lr tg m,
     w @ step_events E nt lr tg @ [AddScalar ''Epoch_time'' (epoch_time E epoch) (int epoch)],
     Some ZeroDivisionError)"
  by (simp add: run_epoch_def train_batches_world Let_def)

lemma run_epochs_snoc:
  "run_epochs E tg te lr nt c (es @ [e]) m w =
    (case run_epochs E tg te lr nt c es m w of
       (m', w', Some err) \<Rightarrow> (m', w', Some err)
     | (m', w', None) \<Rightarrow> run_epoch E tg te lr nt c e m' w')"
proof (induction es arbitrary: m w)
  case Nil
  show ?case by (simp split: prod.splits option.splits)
next
  case (Cons a es)
  show ?case by (simp add: Cons.IH split: prod.splits option.splits)
qed

lemma run_epochs_upt:
  assumes "stats_every_num_epochs h \<noteq> 0"
  shows "run_epochs E (training_dataloader E h) (test_dataloader E h) lr (num_targets h)
      (stats_every_num_epochs h) [0..<n] (Model_init E h) w =
    (model_after E h lr n,
     w @ concat (map (\<lambda>e. epoch_events E h lr e (model_after E h lr e)) [0..<n]), None)"
proof (induction n)
  case 0
  show ?case by (simp add: model_after_def)
next
  case (Suc n)
  show ?case
    by (simp add: run_epochs_snoc Suc.IH run_epoch_world [OF assms, of _ _ _ _ _ _ _ "_ @ _"]
        epoch_events_def model_after_def)
qed

lemma run_epochs_zero_cadence:
  "run_epochs E tg te lr nt 0 (e # es) m w =
    (train_model E nt lr tg m,
     w @ step_events E nt lr tg @ [AddScalar ''Epoch_time'' (epoch_time E e) (int e)],
     Some ZeroDivisionError)"
  by (simp add: run_epoch_zero)

lemma setup_world_world: "setup_world h w = w @ setup_events h"
  by (simp add: setup_world_def setup_events_def Let_def)

lemma resolve_step_size_world:
  "resolve_step_size E h w =
    (case resolve_step_size E h [] of
       Inl (u, err) \<Rightarrow> Inl (w @ u, err)
     | Inr (lr, h', u) \<Rightarrow> Inr (lr, h', w @ u))"
  by (simp add: resolve_step_size_def split: option.splits sum.splits)

lemma resolve_step_size_Inr:
  assumes "resolve_step_size E h w = Inr (lr, h', w')"
  shows "w' = w @ lr_search_events E h" and "step_size h' = Some lr"
    and "h' = (case step_size h of None \<Rightarrow> h\<lparr>step_size := Some lr\<rparr> | Some s \<Rightarrow> h)"
    and "step_size h = None \<Longrightarrow> learning_rate_search E h = Inr lr"
    and "step_size h = Some s \<Longrightarrow> s = lr"
  using assms
  by (auto simp: resolve_step_size_def lr_search_events_def split: option.splits sum.splits)

lemma resolve_step_size_Inl:
  assumes "resolve_step_size E h w = Inl (w', err)"
  shows "w' = w @ lr_search_events E h" and "step_size h = None"
    and "learning_rate_search E h = Inl err"
  using assms
  by (auto simp: resolve_step_size_def lr_search_events_def split: option.splits sum.splits)

lemma run_experiment_search_failed:
  assumes "resolve_step_size E h (init_world h) = Inl (w, err)"
  shows "run_experiment E h =
    \<lparr>hparams_out = h, trace = init_world h @ lr_search_events E h, raised = Some err\<rparr>"
  using assms resolve_step_size_Inl(1) [OF assms]
  by (simp add: run_experiment_def)

lemma run_experiment_completed:
  assumes "resolve_step_size E h (init_world h) = Inr (lr, h', w)"
    and "stats_every_num_epochs h' \<noteq> 0"
  shows "run_experiment E h =
    \<lparr>hparams_out = h',
     trace = init_world h @ lr_search_events E h @ setup_events h' @
       concat (map (\<lambda>e. epoch_events E h' lr e (model_after E h' lr e))
         [0..<nat (num_epochs h')]) @ [WriterClose, FileClose],
     raised = None\<rparr>"
  using assms(1) resolve_step_size_Inr(1) [OF assms(1)]
  by (simp add: run_experiment_def Let_def run_epochs_upt [OF assms(2)] setup_world_world)

lemma run_experiment_no_epochs:
  assumes "resolve_step_size E h (init_world h) = Inr (lr, h', w)"
    and "nat (num_epochs h') = 0"
  shows "run_experiment E h =
    \<lparr>hparams_out = h',
     trace = init_world h @ lr_search_events E h @ setup_events h' @ [WriterClose, FileClose],
     raised = None\<rparr>"
  using assms resolve_step_size_Inr(1) [OF assms(1)]
  by (simp add: run_experiment_def Let_def setup_world_world)

lemma run_experiment_zero_cadence:
  assumes "resolve_step_size E h (init_world h) = Inr (lr, h', w)"
    and "stats_every_num_epochs h' = 0" and "nat (num_epochs h') \<noteq> 0"
  shows "run_experiment E h =
    \<lparr>hparams_out = h',
     trace = init_world h @ lr_search_events E h @ setup_events h' @
       step_events E (num_targets h') lr (training_dataloader E h') @
       [AddScalar ''Epoch_time'' (epoch_time E 0) 0],
     raised = Some ZeroDivisionError\<rparr>"
proof -
  from assms(3) obtain es where es: "[0..<nat (num_epochs h')] = 0 # es"
    by (cases "nat (num_epochs h')") (auto simp: upt_rec)
  show ?thesis
    using assms(1,2) resolve_step_size_Inr(1) [OF assms(1)]
    by (simp add: run_experiment_def Let_def es run_epoch_zero setup_world_world)
qed

lemma epoch_events_eq:
  assumes "stats_every_num_epochs h \<noteq> 0"
  shows "epoch_events E h lr e m =
    step_events E (num_targets h) lr (training_dataloader E h) @
    [AddScalar ''Epoch_time'' (epoch_time E e) (int e)] @
    (if (int e + 1) mod stats_every_num_epochs h = 0
     then write_stats E (training_dataloader E h) (test_dataloader E h) e (epoch_time E e)
            (train_model E (num_targets h) lr (training_dataloader E h) m) []
     else [])"
  using assms
  by (simp add: epoch_events_def run_epoch_def train_batches_world Let_def
      write_stats_world [of _ _ _ _ _ _ "_ @ _"])

lemma mod_on_cadence: "c \<noteq> 0 \<Longrightarrow> (int e + 1) mod c = 0 \<longleftrightarrow> on_cadence c e"
  by (auto simp: on_cadence_def)

text \<open>The shape of every run.\<close>

lemma run_experiment_cases:
  fixes E :: "('m, 'x, 'y, 'oh, 'r) env"
  obtains
    (search_failed) err where
      "step_size h = None" and "learning_rate_search E h = Inl err"
      and "run_experiment E h =
        \<lparr>hparams_out = h, trace = init_world h @ lr_search_events E h, raised = Some err\<rparr>"
  | (zero_cadence) lr h' where
      "step_size h' = Some lr"
      and "h' = (case step_size h of None \<Rightarrow> h\<lparr>step_size := Some lr\<rparr> | Some s \<Rightarrow> h)"
      and "step_size h = None \<longrightarrow> learning_rate_search E h = Inr lr"
      and "stats_every_num_epochs h = 0" and "0 < num_epochs h"
      and "run_experiment E h =
        \<lparr>hparams_out = h',
         trace = init_world h @ lr_search_events E h @ setup_events h' @
           step_events E (num_targets h') lr (training_dataloader E h') @
           [AddScalar ''Epoch_time'' (epoch_time E 0) 0],
         raised = Some ZeroDivisionError\<rparr>"
  | (completed) lr h' where
      "step_size h' = Some lr"
      and "h' = (case step_size h of None \<Rightarrow> h\<lparr>step_size := Some lr\<rparr> | Some s \<Rightarrow> h)"
      and "step_size h = None \<longrightarrow> learning_rate_search E h = Inr lr"
      and "stats_every_num_epochs h \<noteq> 0 \<or> num_epochs h \<le> 0"
      and "run_experiment E h =
        \<lparr>hparams_out = h',
         trace = init_world h @ lr_search_events E h @ setup_events h' @
           concat (map (\<lambda>e. epoch_events E h' lr e (model_after E h' lr e))
             [0..<nat (num_epochs h')]) @ [WriterClose, FileClose],
         raised = None\<rparr>"
proof (cases "resolve_step_size E h (init_world h)")
  case (Inl a)
  obtain w err where a: "a = (w, err)" by (cases a)
  from Inl have r: "resolve_step_size E h (init_world h) = Inl (w, err)" by (simp add: a)
  show ?thesis
    using search_failed [OF resolve_step_size_Inl(2,3) [OF r] run_experiment_search_failed [OF r]] .
next
  case (Inr b)
  obtain lr h' w where b: "b = (lr, h', w)" by (cases b)
  from Inr have r: "resolve_step_size E h (init_world h) = Inr (lr, h', w)" by (simp add: b)
  note facts = resolve_step_size_Inr [OF r]
  have same: "stats_every_num_epochs h' = stats_every_num_epochs h" "num_epochs h' = num_epochs h"
    by (simp_all add: facts(3) split: option.splits)
  show ?thesis
  proof (cases "stats_every_num_epochs h = 0")
    case False
    then have ne: "stats_every_num_epochs h' \<noteq> 0" by (simp add: same)
    show ?thesis
    proof (rule completed [of h' lr])
      show "step_size h' = Some lr" by (rule facts(2))
      show "h' = (case step_size h of None \<Rightarrow> h\<lparr>step_size := Some lr\<rparr> | Some s \<Rightarrow> h)"
        by (rule facts(3))
      show "step_size h = None \<longrightarrow> learning_rate_search E h = Inr lr"
        using facts(4) by simp
      show "stats_every_num_epochs h \<noteq> 0 \<or> num_epochs h \<le> 0" using False by simp
      show "run_experiment E h =
        \<lparr>hparams_out = h',
         trace = init_world h @ lr_search_events E h @ setup_events h' @
           concat (map (\<lambda>e. epoch_events E h' lr e (model_after E h' lr e))
             [0..<nat (num_epochs h')]) @ [WriterClose, FileClose],
         raised = None\<rparr>"
        by (rule run_experiment_completed [OF r ne])
    qed
  next
    case True
    show ?thesis
    proof (cases "num_epochs h \<le> 0")
      case True
      then have z: "nat (num_epochs h') = 0" by (simp add: same)
      show ?thesis
      proof (rule completed [of h' lr])
        show "step_size h' = Some lr" by (rule facts(2))
        show "h' = (case step_size h of None \<Rightarrow> h\<lparr>step_size := Some lr\<rparr> | Some s \<Rightarrow> h)"
          by (rule facts(3))
        show "step_size h = None \<longrightarrow> learning_rate_search E h = Inr lr"
          using facts(4) by simp
        show "stats_every_num_epochs h \<noteq> 0 \<or> num_epochs h \<le> 0" using True by simp
        show "run_experiment E h =
          \<lparr>hparams_out = h',
           trace = init_world h @ lr_search_events E h @ setup_events h' @
             concat (map (\<lambda>e. epoch_events E h' lr e (model_after E h' lr e))
               [0..<nat (num_epochs h')]) @ [WriterClose, FileClose],
           raised = None\<rparr>"
          using run_experiment_no_epochs [OF r z] by (simp add: z)
      qed
    next
      case False
      then have nz: "nat (num_epochs h') \<noteq> 0" by (simp add: same)
      have c0: "stats_every_num_epochs h' = 0" using True by (simp add: same)
      show ?thesis
      proof (rule zero_cadence [of h' lr])
        show "step_size h' = Some lr" by (rule facts(2))
        show "h' = (case step_size h of None \<Rightarrow> h\<lparr>step_size := Some lr\<rparr> | Some s \<Rightarrow> h)"
          by (rule facts(3))
        show "step_size h = None \<longrightarrow> learning_rate_search E h = Inr lr"
          using facts(4) by simp
        show "stats_every_num_epochs h = 0" by (rule True)
        show "0 < num_epochs h" using False by simp
        show "run_experiment E h =
          \<lparr>hparams_out = h',
           trace = init_world h @ lr_search_events E h @ setup_events h' @
             step_events E (num_targets h') lr (training_dataloader E h') @
             [AddScalar ''Epoch_time'' (epoch_time E 0) 0],
           raised = Some ZeroDivisionError\<rparr>"
          by (rule run_experiment_zero_cadence [OF r c0 nz])
      qed
    qed
  qed
qed

lemmas projection_defs =
  jax_config_updates_def searches_def model_steps_def scalars_def evaluations_def run_log_def

lemma projections_Nil:
  "jax_config_updates [] = []" "searches [] = []" "model_steps [] = []"
  "scalars [] = []" "evaluations [] = []" "run_log [] = []"
  by (simp_all add: projection_defs)

lemma projections_Cons:
  "jax_config_updates (e # w) =
    (case e of JaxConfigUpdate k v \<Rightarrow> [(k, v)] | _ \<Rightarrow> []) @ jax_config_updates w"
  "searches (e # w) = (case e of LearningRateSearch h \<Rightarrow> [h] | _ \<Rightarrow> []) @ searches w"
  "model_steps (e # w) = (case e of ModelStep x y s \<Rightarrow> [(x, y, s)] | _ \<Rightarrow> []) @ model_steps w"
  "scalars (e # w) = (case e of AddScalar tag v i \<Rightarrow> [(tag, v, i)] | _ \<Rightarrow> []) @ scalars w"
  "evaluations (e # w) = (case e of CompLossAccuracy s \<Rightarrow> [s] | _ \<Rightarrow> []) @ evaluations w"
  "run_log (e # w) = (case e of FileWrite s \<Rightarrow> [s] | _ \<Rightarrow> []) @ run_log w"
  by (simp_all add: projection_defs)

lemma projections_append:
  "jax_config_updates (u @ v) = jax_config_updates u @ jax_config_updates v"
  "searches (u @ v) = searches u @ searches v"
  "model_steps (u @ v) = model_steps u @ model_steps v"
  "scalars (u @ v) = scalars u @ scalars v"
  "evaluations (u @ v) = evaluations u @ evaluations v"
  "run_log (u @ v) = run_log u @ run_log v"
  by (simp_all add: projection_defs)

lemma projections_concat:
  "jax_config_updates (concat ws) = concat (map jax_config_updates ws)"
  "searches (concat ws) = concat (map searches ws)"
  "model_steps (concat ws) = concat (map model_steps ws)"
  "scalars (concat ws) = concat (map scalars ws)"
  "evaluations (concat ws) = concat (map evaluations ws)"
  "run_log (concat ws) = concat (map run_log ws)"
  by (induction ws) (simp_all add: projections_append projections_Nil)

lemmas projections_simps = projections_Nil projections_Cons projections_append

lemma projections_init_world:
  "jax_config_updates (init_world h) =
    (if device h = ''cpu'' then [(''jax_platform_name'', ''cpu'')] else [])"
  "searches (init_world h) = []"
  "model_steps (init_world h) = []"
  "scalars (init_world h) = []"
  "evaluations (init_world h) = []"
  "run_log (init_world h) = []"
  by (simp_all add: projections_simps init_world_def Let_def)

lemma projections_lr_search_events:
  "jax_config_updates (lr_search_events E h) = []"
  "searches (lr_search_events E h) = (if step_size h = None then [h] else [])"
  "model_steps (lr_search_events E h) = []"
  "scalars (lr_search_events E h) = []"
  "evaluations (lr_search_events E h) = []"
  "run_log (lr_search_events E h) = []"
  by (simp_all add: projections_simps lr_search_events_def resolve_step_size_def
      split: option.splits sum.splits)

lemma projections_setup_events:
  "jax_config_updates (setup_events h) = []"
  "searches (setup_events h) = []"
  "model_steps (setup_events h) = []"
  "scalars (setup_events h) = []"
  "evaluations (setup_events h) = []"
  "run_log (setup_events h) = []"
  by (simp_all add: projections_simps setup_events_def setup_world_def Let_def)

lemma projections_step_events:
  "jax_config_updates (step_events E nt lr bs) = []"
  "searches (step_events E nt lr bs) = []"
  "model_steps (step_events E nt lr bs) = map (\<lambda>(x, y). (x, one_hot E y nt, lr)) bs"
  "scalars (step_events E nt lr bs) = []"
  "evaluations (step_events E nt lr bs) = []"
  "run_log (step_events E nt lr bs) = []"
  by (induction bs) (simp_all add: projections_simps step_events_def case_prod_beta)

lemma projections_write_stats:
  "jax_config_updates (write_stats E tg te e t m []) = []"
  "searches (write_stats E tg te e t m []) = []"
  "model_steps (write_stats E tg te e t m []) = []"
  "scalars (write_stats E tg te e t m []) =
    [(''Accuracy/train'', snd (comp_loss_accuracy E m tg), int e),
     (''Accuracy/test'', snd (comp_loss_accuracy E m te), int e),
     (''Loss/train'', fst (comp_loss_accuracy E m tg), int e),
     (''Loss/test'', fst (comp_loss_accuracy E m te), int e)]"
  "evaluations (write_stats E tg te e t m []) = [TrainingStream, TestStream]"
  "run_log (write_stats E tg te e t m []) =
    [message E e t (fst (comp_loss_accuracy E m tg)) (fst (comp_loss_accuracy E m te))
       (snd (comp_loss_accuracy E m tg)) (snd (comp_loss_accuracy E m te)) @ [CHR 0x0A]]"
  by (simp_all add: projections_simps write_stats_def Let_def case_prod_beta)

lemma projections_epoch_events:
  assumes "stats_every_num_epochs h \<noteq> 0"
  shows "jax_config_updates (epoch_events E h lr e m) = []"
    and "searches (epoch_events E h lr e m) = []"
    and "model_steps (epoch_events E h lr e m) =
      map (\<lambda>(x, y). (x, one_hot E y (num_targets h), lr)) (training_dataloader E h)"
    and "evaluations (epoch_events E h lr e m) =
      (if on_cadence (stats_every_num_epochs h) e then [TrainingStream, TestStream] else [])"
  by (simp_all add: epoch_events_eq [OF assms] mod_on_cadence [OF assms] projections_simps
      projections_step_events projections_write_stats)

lemma concat_map_Nil: "concat (map (\<lambda>x. []) xs) = []"
  by (induction xs) simp_all

lemma jax_config_updates_epochs:
  assumes "stats_every_num_epochs h \<noteq> 0 \<or> es = []"
  shows "jax_config_updates (concat (map (\<lambda>e. epoch_events E h lr e (f e)) es)) = []"
proof (cases "es = []")
  case True
  then show ?thesis by (simp add: projections_Nil)
next
  case False
  with assms have "stats_every_num_epochs h \<noteq> 0" by simp
  then show ?thesis
    by (simp add: projections_concat comp_def projections_epoch_events concat_map_Nil)
qed

lemma raised_run_experiment:
  "raised (run_experiment E h) =
    (case step_size h of
       None \<Rightarrow>
         (case learning_rate_search E h of
            Inl err \<Rightarrow> Some err
          | Inr b \<Rightarrow>
              if stats_every_num_epochs h = 0 \<and> 0 < num_epochs h
              then Some ZeroDivisionError else None)
     | Some s \<Rightarrow>
         if stats_every_num_epochs h = 0 \<and> 0 < num_epochs h
         then Some ZeroDivisionError else None)"
proof (cases rule: run_experiment_cases [of h E])
  case (search_failed err)
  then show ?thesis by simp
next
  case (zero_cadence lr h')
  then show ?thesis by (auto split: option.splits sum.splits)
next
  case (completed lr h')
  then show ?thesis by (auto split: option.splits sum.splits)
qed

lemma hparams_out_run_experiment:
  "hparams_out (run_experiment E h) =
    (case step_size h of
       None \<Rightarrow>
         (case learning_rate_search E h of
            Inl err \<Rightarrow> h
          | Inr b \<Rightarrow> h\<lparr>step_size := Some b\<rparr>)
     | Some s \<Rightarrow> h)"
  by (simp add: run_experiment_def resolve_step_size_def Let_def
      split: option.splits sum.splits prod.splits)


lemma train_model_model_after:
  "train_model E (num_targets h) lr (training_dataloader E h) (model_after E h lr e) =
    model_after E h lr (Suc e)"
  by (simp add: model_after_def)

lemma projections_epoch_events_model_after:
  assumes "stats_every_num_epochs h \<noteq> 0"
  shows "scalars (epoch_events E h lr e (model_after E h lr e)) =
      (''Epoch_time'', epoch_time E e, int e) #
      (if on_cadence (stats_every_num_epochs h) e then stats_scalars E h lr e else [])"
    and "run_log (epoch_events E h lr e (model_after E h lr e)) =
      (if on_cadence (stats_every_num_epochs h) e then [log_record E h lr e] else [])"
  by (simp_all add: epoch_events_eq [OF assms] mod_on_cadence [OF assms] projections_simps
      projections_step_events projections_write_stats train_model_model_after
      stats_scalars_def log_record_def Let_def case_prod_beta)

lemma concat_map_if:
  "concat (map (\<lambda>e. if P e then f e else []) es) = concat (map f (filter P es))"
  by (induction es) simp_all

lemma concat_map_single: "concat (map (\<lambda>e. [g e]) es) = map g es"
  by (induction es) simp_all

lemma projections_epochs:
  assumes "stats_every_num_epochs h \<noteq> 0 \<or> es = []"
  shows "searches (concat (map (\<lambda>e. epoch_events E h lr e (model_after E h lr e)) es)) = []"
    and "model_steps (concat (map (\<lambda>e. epoch_events E h lr e (model_after E h lr e)) es)) =
      concat (map (\<lambda>e. map (\<lambda>(x, y). (x, one_hot E y (num_targets h), lr))
        (training_dataloader E h)) es)"
    and "scalars (concat (map (\<lambda>e. epoch_events E h lr e (model_after E h lr e)) es)) =
      concat (map (\<lambda>e. (''Epoch_time'', epoch_time E e, int e) #
        (if on_cadence (stats_every_num_epochs h) e then stats_scalars E h lr e else [])) es)"
    and "evaluations (concat (map (\<lambda>e. epoch_events E h lr e (model_after E h lr e)) es)) =
      concat (map (\<lambda>e. [TrainingStream, TestStream])
        (filter (on_cadence (stats_every_num_epochs h)) es))"
    and "run_log (concat (map (\<lambda>e. epoch_events E h lr e (model_after E h lr e)) es)) =
      map (log_record E h lr) (filter (on_cadence (stats_every_num_epochs h)) es)"
proof -
  consider (empty) "es = []" | (cadence) "stats_every_num_epochs h \<noteq> 0"
    using assms by blast
  note shape = this
  show "searches (concat (map (\<lambda>e. epoch_events E h lr e (model_after E h lr e)) es)) = []"
  proof (cases rule: shape)
    case empty
    then show ?thesis by (simp add: projections_Nil)
  next
    case c: cadence
    show ?thesis
      by (simp add: projections_concat comp_def projections_epoch_events [OF c] concat_map_Nil)
  qed
  show "model_steps (concat (map (\<lambda>e. epoch_events E h lr e (model_after E h lr e)) es)) =
      concat (map (\<lambda>e. map (\<lambda>(x, y). (x, one_hot E y (num_targets h), lr))
        (training_dataloader E h)) es)"
  proof (cases rule: shape)
    case empty
    then show ?thesis by (simp add: projections_Nil)
  next
    case c: cadence
    show ?thesis
      by (simp add: projections_concat comp_def projections_epoch_events [OF c])
  qed
  show "scalars (concat (map (\<lambda>e. epoch_events E h lr e (model_after E h lr e)) es)) =
      concat (map (\<lambda>e. (''Epoch_time'', epoch_time E e, int e) #
        (if on_cadence (stats_every_num_epochs h) e then stats_scalars E h lr e else [])) es)"
  proof (cases rule: shape)
    case empty
    then show ?thesis by (simp add: projections_Nil)
  next
    case c: cadence
    show ?thesis
      by (simp add: projections_concat comp_def projections_epoch_events_model_after [OF c])
  qed
  show "evaluations (concat (map (\<lambda>e. epoch_events E h lr e (model_after E h lr e)) es)) =
      concat (map (\<lambda>e. [TrainingStream, TestStream])
        (filter (on_cadence (stats_every_num_epochs h)) es))"
  proof (cases rule: shape)
    case empty
    then show ?thesis by (simp add: projections_Nil)
  next
    case c: cadence
    show ?thesis
      by (simp add: projections_concat comp_def projections_epoch_events [OF c] concat_map_if)
  qed
  show "run_log (concat (map (\<lambda>e. epoch_events E h lr e (model_after E h lr e)) es)) =
      map (log_record E h lr) (filter (on_cadence (stats_every_num_epochs h)) es)"
  proof (cases rule: shape)
    case empty
    then show ?thesis by (simp add: projections_Nil)
  next
    case c: cadence
    show ?thesis
      by (simp add: projections_concat comp_def projections_epoch_events_model_after [OF c]
        concat_map_if concat_map_single)
  qed
qed

text \<open>The world of a run that returns.\<close>

lemma completed_run:
  assumes "raised (run_experiment E h) = None"
    and "step_size (hparams_out (run_experiment E h)) = Some lr"
  shows "trace (run_experiment E h) =
      init_world h @ lr_search_events E h @ setup_events (hparams_out (run_experiment E h)) @
      concat (map (\<lambda>e. epoch_events E (hparams_out (run_experiment E h)) lr e
          (model_after E (hparams_out (run_experiment E h)) lr e))
        [0..<nat (num_epochs h)]) @
      [WriterClose, FileClose]"
    and "stats_every_num_epochs (hparams_out (run_experiment E h)) \<noteq> 0 \<or>
      [0..<nat (num_epochs h)] = []"
    and "num_targets (hparams_out (run_experiment E h)) = num_targets h"
    and "stats_every_num_epochs (hparams_out (run_experiment E h)) = stats_every_num_epochs h"
    and "num_epochs (hparams_out (run_experiment E h)) = num_epochs h"
    and "step_size h = None \<longrightarrow> learning_rate_search E h = Inr lr"
    and "step_size h \<noteq> None \<longrightarrow> step_size h = Some lr"
proof -
  show "num_targets (hparams_out (run_experiment E h)) = num_targets h"
    and "stats_every_num_epochs (hparams_out (run_experiment E h)) = stats_every_num_epochs h"
    and "num_epochs (hparams_out (run_experiment E h)) = num_epochs h"
    by (simp_all add: hparams_out_run_experiment split: option.splits sum.splits)
  show "trace (run_experiment E h) =
      init_world h @ lr_search_events E h @ setup_events (hparams_out (run_experiment E h)) @
      concat (map (\<lambda>e. epoch_events E (hparams_out (run_experiment E h)) lr e
          (model_after E (hparams_out (run_experiment E h)) lr e))
        [0..<nat (num_epochs h)]) @
      [WriterClose, FileClose]"
  proof (cases rule: run_experiment_cases [of h E])
    case (search_failed err)
    with assms(1) show ?thesis by simp
  next
    case (zero_cadence lr' h')
    with assms(1) show ?thesis by simp
  next
    case (completed lr' h')
    from completed(5) assms(2) completed(1) have "lr' = lr" by simp
    moreover have "num_epochs h' = num_epochs h"
      by (simp add: completed(2) split: option.splits)
    ultimately show ?thesis by (simp add: completed(5))
  qed
  show "stats_every_num_epochs (hparams_out (run_experiment E h)) \<noteq> 0 \<or>
      [0..<nat (num_epochs h)] = []"
    using assms(1)
    by (auto simp: raised_run_experiment hparams_out_run_experiment
        split: option.splits sum.splits if_splits)
  show "step_size h = None \<longrightarrow> learning_rate_search E h = Inr lr"
    using assms
    by (auto simp: raised_run_experiment hparams_out_run_experiment
        split: option.splits sum.splits if_splits)
  show "step_size h \<noteq> None \<longrightarrow> step_size h = Some lr"
    using assms
    by (auto simp: raised_run_experiment hparams_out_run_experiment
        split: option.splits sum.splits if_splits)
qed

lemma demo_run:
  "raised (run_experiment demo_env demo_hparams) = None"
  "hparams_out (run_experiment demo_env demo_hparams) = demo_hparams\<lparr>step_size := Some 1\<rparr>"
  by (simp_all add: raised_run_experiment hparams_out_run_experiment demo_env_def
      demo_hparams_def)

lemma demo_epochs:
  "[0..<nat (num_epochs demo_hparams)] = [0, 1]"
  "cadence_epochs demo_hparams = [1]"
  by (simp_all add: cadence_epochs_def demo_hparams_def on_cadence_def upt_rec
      numeral_2_eq_2)

lemma scalars_completed_run:
  assumes "raised (run_experiment E h) = None"
    and "step_size (hparams_out (run_experiment E h)) = Some lr"
  shows "scalars (trace (run_experiment E h)) =
    concat (map (\<lambda>e. (''Epoch_time'', epoch_time E e, int e) #
        (if on_cadence (stats_every_num_epochs h) e
         then stats_scalars E (hparams_out (run_experiment E h)) lr e else []))
      [0..<nat (num_epochs h)])"
proof -
  note run = completed_run [OF assms]
  show ?thesis
    by (simp add: run(1) projections_append projections_init_world
        projections_lr_search_events projections_setup_events
        projections_epochs(3) [OF run(2)] run(4) projections_Nil projections_Cons)
qed

lemma filter_stats_scalars:
  "filter (\<lambda>s. fst s = ''Epoch_time'') (stats_scalars E h lr e) = []"
  "filter (\<lambda>s. fst s \<noteq> ''Epoch_time'') (stats_scalars E h lr e) = stats_scalars E h lr e"
  by (simp_all add: stats_scalars_def Let_def case_prod_beta)

lemma filter_concat_epoch_scalars:
  "filter (\<lambda>s. fst s = ''Epoch_time'')
      (concat (map (\<lambda>e. (''Epoch_time'', t e, int e) #
        (if P e then stats_scalars E h lr e else [])) es)) =
    map (\<lambda>e. (''Epoch_time'', t e, int e)) es"
  "filter (\<lambda>s. fst s \<noteq> ''Epoch_time'')
      (concat (map (\<lambda>e. (''Epoch_time'', t e, int e) #
        (if P e then stats_scalars E h lr e else [])) es)) =
    concat (map (stats_scalars E h lr) (filter P es))"
  by (induction es) (simp_all add: filter_stats_scalars)

lemma model_steps_completed_run:
  assumes "raised (run_experiment E h) = None"
    and "step_size (hparams_out (run_experiment E h)) = Some lr"
  shows "model_steps (trace (run_experiment E h)) =
    concat (replicate (nat (num_epochs h))
      (map (\<lambda>(x, y). (x, one_hot E y (num_targets h), lr))
        (training_dataloader E (hparams_out (run_experiment E h)))))"
proof -
  note run = completed_run [OF assms]
  show ?thesis
    by (simp add: run(1) projections_append projections_init_world
        projections_lr_search_events projections_setup_events
        projections_epochs(2) [OF run(2)] run(3) projections_Nil projections_Cons
        map_replicate_const)
qed

lemma searches_run_experiment:
  "searches (trace (run_experiment E h)) = (if step_size h = None then [h] else [])"
proof (cases rule: run_experiment_cases [of h E])
  case (search_failed err)
  show ?thesis
    by (simp add: search_failed(3) projections_append projections_init_world
        projections_lr_search_events)
next
  case (zero_cadence lr h')
  show ?thesis
    by (simp add: zero_cadence(6) projections_append projections_init_world
        projections_lr_search_events projections_setup_events projections_step_events
        projections_Nil projections_Cons)
next
  case (completed lr h')
  have "stats_every_num_epochs h' \<noteq> 0 \<or> [0..<nat (num_epochs h')] = []"
    using completed(4) by (auto simp: completed(2) split: option.splits)
  then show ?thesis
    by (simp add: completed(5) projections_append projections_init_world
        projections_lr_search_events projections_setup_events projections_epochs(1)
        projections_Nil projections_Cons)
qed

lemma select_optimizer_simps:
  "step_size (select_optimizer name h) = step_size h"
  "stats_every_num_epochs (select_optimizer name h) = stats_every_num_epochs h"
  "num_epochs (select_optimizer name h) = num_epochs h"
  "num_targets (select_optimizer name h) = num_targets h"
  "optimizer (select_optimizer name h) = Some name"
  by (simp_all add: select_optimizer_def Let_def)

lemma script_hparams_simps:
  "step_size script_hparams = None"
  "stats_every_num_epochs script_hparams = 10"
  "num_epochs script_hparams = 100"
  "num_targets script_hparams = 10"
  by (simp_all add: script_hparams_def)

lemma goes_Nil: "goes p [] [] p"
  by (simp add: goes_def)

lemma goes_Cons:
  assumes "next_phase p e = Some q" and "goes q w ps r"
  shows "goes p (e # w) (q # ps) r"
  using assms by (simp add: goes_def)

lemma goes_append:
  assumes "goes p u ps q" and "goes q v ps' r"
  shows "goes p (u @ v) (ps @ ps') r"
  using assms
proof (induction u arbitrary: p ps)
  case Nil
  then show ?case by (auto simp: goes_def)
next
  case (Cons e u)
  from Cons.prems(1) obtain p' ps'' where e: "next_phase p e = Some p'"
    and u: "phases_from p' u = Some ps''" and ps: "ps = p' # ps''"
    by (auto simp: goes_def split: option.splits)
  from Cons.prems(1) have "goes p' u ps'' q"
    by (simp add: goes_def e u ps)
  from Cons.IH [OF this Cons.prems(2)] have "goes p' (u @ v) (ps'' @ ps') r" .
  then show ?case
    by (simp add: goes_def e ps)
qed

lemma goes_init_world:
  "goes INIT (init_world h) (replicate (if device h = ''cpu'' then 3 else 2) INIT) INIT"
  by (simp add: init_world_def Let_def goes_def next_phase_def numeral_eq_Suc)

lemma goes_lr_search_events:
  "goes INIT (lr_search_events E h) (replicate (length (lr_search_events E h)) LR_SEARCH)
    (if step_size h = None then LR_SEARCH else INIT)"
  by (simp add: lr_search_events_def resolve_step_size_def goes_def next_phase_def
      split: option.splits sum.splits)

lemma lr_search_events_empty: "lr_search_events E h = [] \<longleftrightarrow> step_size h \<noteq> None"
  by (simp add: lr_search_events_def resolve_step_size_def split: option.splits sum.splits)

lemma goes_setup_events:
  assumes "p = INIT \<or> p = LR_SEARCH"
  shows "goes p (setup_events h) (replicate 6 SETUP) SETUP"
  using assms
  by (auto simp: setup_events_def setup_world_def Let_def goes_def next_phase_def
      numeral_eq_Suc)

lemma goes_step_events:
  assumes "p = SETUP \<or> p = RUN_EPOCH"
  shows "goes p (step_events E nt lr bs) (replicate (length bs) RUN_EPOCH)
    (if bs = [] then p else RUN_EPOCH)"
  using assms
proof (induction bs arbitrary: p)
  case Nil
  then show ?case by (simp add: step_events_def goes_def)
next
  case (Cons b bs)
  have "goes RUN_EPOCH (step_events E nt lr bs) (replicate (length bs) RUN_EPOCH) RUN_EPOCH"
    using Cons.IH [of RUN_EPOCH] by (simp split: if_splits)
  moreover have "next_phase p (ModelStep (fst b) (one_hot E (snd b) nt) lr) = Some RUN_EPOCH"
    using Cons.prems by (auto simp: next_phase_def)
  ultimately show ?case
    using goes_Cons [of p "ModelStep (fst b) (one_hot E (snd b) nt) lr" RUN_EPOCH
        "step_events E nt lr bs" "replicate (length bs) RUN_EPOCH" RUN_EPOCH]
    by (simp add: step_events_def case_prod_beta)
qed

lemma goes_Epoch_time:
  assumes "p = SETUP \<or> p = RUN_EPOCH"
  shows "goes p [AddScalar tag v i] [RUN_EPOCH] RUN_EPOCH"
  using assms by (auto simp: goes_def next_phase_def)

lemma goes_write_stats:
  "goes RUN_EPOCH (write_stats E tg te e t m [])
    (replicate (length (write_stats E tg te e t m [])) RUN_EPOCH) RUN_EPOCH"
  by (simp add: write_stats_def Let_def case_prod_beta goes_def next_phase_def)

lemma goes_steps_and_time:
  assumes "p = SETUP \<or> p = RUN_EPOCH"
  shows "goes p (step_events E nt lr bs @ [AddScalar tag v i])
    (replicate (length (step_events E nt lr bs @ [AddScalar tag v i])) RUN_EPOCH) RUN_EPOCH"
proof -
  have "(if bs = [] then p else RUN_EPOCH) = SETUP \<or> (if bs = [] then p else RUN_EPOCH) = RUN_EPOCH"
    using assms by simp
  from goes_append [OF goes_step_events [OF assms] goes_Epoch_time [OF this]]
  show ?thesis
    by (simp add: step_events_def replicate_append_same)
qed

lemma goes_epoch_events:
  assumes "p = SETUP \<or> p = RUN_EPOCH" and "stats_every_num_epochs h \<noteq> 0"
  shows "goes p (epoch_events E h lr e m)
    (replicate (length (epoch_events E h lr e m)) RUN_EPOCH) RUN_EPOCH"
proof (cases "(int e + 1) mod stats_every_num_epochs h = 0")
  case True
  from goes_append [OF goes_steps_and_time [OF assms(1)] goes_write_stats]
  show ?thesis
    by (simp add: epoch_events_eq [OF assms(2)] True replicate_add [symmetric])
next
  case False
  from goes_steps_and_time [OF assms(1)]
  show ?thesis
    by (simp add: epoch_events_eq [OF assms(2)] False)
qed

lemma goes_epochs:
  assumes "p = SETUP \<or> p = RUN_EPOCH" and "stats_every_num_epochs h \<noteq> 0 \<or> es = []"
  shows "goes p (concat (map (\<lambda>e. epoch_events E h lr e (f e)) es))
    (replicate (length (concat (map (\<lambda>e. epoch_events E h lr e (f e)) es))) RUN_EPOCH)
    (if es = [] then p else RUN_EPOCH)"
  using assms
proof (induction es arbitrary: p)
  case Nil
  show ?case by (simp add: goes_def)
next
  case (Cons e es)
  then have c: "stats_every_num_epochs h \<noteq> 0" by simp
  have "goes RUN_EPOCH (concat (map (\<lambda>e. epoch_events E h lr e (f e)) es))
    (replicate (length (concat (map (\<lambda>e. epoch_events E h lr e (f e)) es))) RUN_EPOCH)
    RUN_EPOCH"
    using Cons.IH [of RUN_EPOCH] c by (simp split: if_splits)
  from goes_append [OF goes_epoch_events [OF Cons.prems(1) c] this]
  show ?case
    by (simp add: replicate_add [symmetric])
qed

lemma goes_done:
  assumes "p = SETUP \<or> p = RUN_EPOCH"
  shows "goes p [WriterClose, FileClose] [DONE, DONE] DONE"
  using assms by (auto simp: goes_def next_phase_def)

lemma init_phases_nonempty: "0 < (if device h = ''cpu'' then 3 else 2 :: nat)"
  by simp

lemma step_sizes_of_run:
  assumes "step_size (hparams_out (run_experiment E h)) = Some lr"
  shows "\<forall>s \<in> set (model_steps (trace (run_experiment E h))). snd (snd s) = lr"
proof (cases rule: run_experiment_cases [of h E])
  case (search_failed err)
  with assms show ?thesis by simp
next
  case (zero_cadence lr' h')
  from zero_cadence(6) assms zero_cadence(1) have "lr' = lr" by simp
  then show ?thesis
    by (auto simp: zero_cadence(6) projections_append projections_init_world
        projections_lr_search_events projections_setup_events projections_step_events
        projections_Nil projections_Cons)
next
  case (completed lr' h')
  from completed(5) assms completed(1) have "lr' = lr" by simp
  moreover have "stats_every_num_epochs h' \<noteq> 0 \<or> [0..<nat (num_epochs h')] = []"
    using completed(4) by (auto simp: completed(2) split: option.splits)
  ultimately show ?thesis
    by (auto simp: completed(5) projections_append projections_init_world
        projections_lr_search_events projections_setup_events projections_epochs(2)
        projections_Nil projections_Cons)
qed

lemma phasesI:
  assumes "phases_from INIT w =
      Some (replicate a INIT @ replicate b LR_SEARCH @ replicate c SETUP @
        replicate d RUN_EPOCH @ replicate e DONE)"
    and "0 < a" and "0 < b \<longleftrightarrow> P" and "0 < e \<longleftrightarrow> Q"
  shows "\<exists>a b c d e.
    phases_from INIT w =
      Some (replicate a INIT @ replicate b LR_SEARCH @ replicate c SETUP @
        replicate d RUN_EPOCH @ replicate e DONE) \<and>
    0 < a \<and> (0 < b \<longleftrightarrow> P) \<and> (0 < e \<longleftrightarrow> Q)"
  using assms by (intro exI conjI)

lemma phases_of_run:
  fixes E :: "('m, 'x, 'y, 'oh, 'r) env"
  shows "\<exists>a b c d e.
    phases_from INIT (trace (run_experiment E h)) =
      Some (replicate a INIT @ replicate b LR_SEARCH @ replicate c SETUP @
        replicate d RUN_EPOCH @ replicate e DONE) \<and>
    0 < a \<and> (0 < b \<longleftrightarrow> step_size h = None) \<and>
    (0 < e \<longleftrightarrow> raised (run_experiment E h) = None)"
proof -
  let ?a = "if device h = ''cpu'' then 3 else 2 :: nat"
  let ?b = "length (lr_search_events E h)"
  let ?q = "if step_size h = None then LR_SEARCH else INIT"
  have q: "?q = INIT \<or> ?q = LR_SEARCH" by simp
  have b: "0 < ?b \<longleftrightarrow> step_size h = None"
    using lr_search_events_empty [of E h] by auto
  note start = goes_append [OF goes_init_world [of h] goes_lr_search_events [of E h]]
  show ?thesis
  proof (cases rule: run_experiment_cases [of h E])
    case (search_failed err)
    from start
    have "phases_from INIT (trace (run_experiment E h)) =
      Some (replicate ?a INIT @ replicate ?b LR_SEARCH @ replicate 0 SETUP @
        replicate 0 RUN_EPOCH @ replicate 0 DONE)"
      by (simp add: search_failed(3) goes_def)
    moreover have "(0 < (0::nat)) \<longleftrightarrow> raised (run_experiment E h) = None"
      by (simp add: search_failed(3))
    ultimately show ?thesis
      using init_phases_nonempty [of h] b by (intro phasesI)
  next
    case (zero_cadence lr h')
    let ?w = "step_events E (num_targets h') lr (training_dataloader E h') @
      [AddScalar ''Epoch_time'' (epoch_time E 0) 0]"
    have g2: "goes ?q (setup_events h' :: ('x, 'oh) event list) (replicate 6 SETUP) SETUP"
      by (rule goes_setup_events [OF q])
    have g3: "goes SETUP ?w (replicate (length ?w) RUN_EPOCH) RUN_EPOCH"
      by (rule goes_steps_and_time) simp
    have "goes INIT (trace (run_experiment E h))
      (replicate ?a INIT @ replicate ?b LR_SEARCH @ replicate 6 SETUP @
        replicate (length ?w) RUN_EPOCH @ replicate 0 DONE) RUN_EPOCH"
      using goes_append [OF goes_append [OF start g2] g3]
      by (simp add: zero_cadence(6))
    then have "phases_from INIT (trace (run_experiment E h)) =
      Some (replicate ?a INIT @ replicate ?b LR_SEARCH @ replicate 6 SETUP @
        replicate (length ?w) RUN_EPOCH @ replicate 0 DONE)"
      by (simp only: goes_def)
    moreover have "(0 < (0::nat)) \<longleftrightarrow> raised (run_experiment E h) = None"
      by (simp add: zero_cadence(6))
    ultimately show ?thesis
      using init_phases_nonempty [of h] b by (intro phasesI)
  next
    case (completed lr h')
    let ?w = "concat (map (\<lambda>e. epoch_events E h' lr e (model_after E h' lr e))
      [0..<nat (num_epochs h')])"
    let ?p = "if [0..<nat (num_epochs h')] = [] then SETUP else RUN_EPOCH"
    have c: "stats_every_num_epochs h' \<noteq> 0 \<or> [0..<nat (num_epochs h')] = []"
      using completed(4) by (auto simp: completed(2) split: option.splits)
    have p: "?p = SETUP \<or> ?p = RUN_EPOCH" by simp
    have g2: "goes ?q (setup_events h' :: ('x, 'oh) event list) (replicate 6 SETUP) SETUP"
      by (rule goes_setup_events [OF q])
    have g3: "goes SETUP ?w (replicate (length ?w) RUN_EPOCH) ?p"
      by (rule goes_epochs [OF _ c]) simp
    have g4: "goes ?p ([WriterClose, FileClose] :: ('x, 'oh) event list) [DONE, DONE] DONE"
      by (rule goes_done [OF p])
    have "goes INIT (trace (run_experiment E h))
      (replicate ?a INIT @ replicate ?b LR_SEARCH @ replicate 6 SETUP @
        replicate (length ?w) RUN_EPOCH @ replicate 2 DONE) DONE"
      using goes_append [OF goes_append [OF goes_append [OF start g2] g3] g4]
      by (simp add: completed(5) numeral_2_eq_2)
    then have "phases_from INIT (trace (run_experiment E h)) =
      Some (replicate ?a INIT @ replicate ?b LR_SEARCH @ replicate 6 SETUP @
        replicate (length ?w) RUN_EPOCH @ replicate 2 DONE)"
      by (simp only: goes_def)
    moreover have "(0 < (2::nat)) \<longleftrightarrow> raised (run_experiment E h) = None"
      by (simp add: completed(5))
    ultimately show ?thesis
      using init_phases_nonempty [of h] b by (intro phasesI)
  qed
qed

lemma clip_bounds:
  assumes "lo \<le> hi"
  shows "lo \<le> clip x lo hi" and "clip x lo hi \<le> hi"
  using assms by (simp_all add: clip_def)

lemma sng_tensor_nth:
  assumes "i < length param" and "i < length (fst stats)" and "i < length (snd stats)"
  shows "sng_tensor eta eps r_max param stats ! i =
    param ! i - eta * sng_ratio eps r_max (fst stats ! i) (snd stats ! i)"
  using assms by (simp add: sng_tensor_def)

lemma lr_candidates_bracket:
  assumes "0 < lo" and "lo < hi" and "lr \<in> set (lr_candidates lo hi n)"
  shows "lo \<le> lr \<and> lr \<le> hi"
proof -
  from assms(3)
  have "lr \<in> (\<lambda>i. if n = 1 then lo else lo * (hi / lo) powr (real i / real (n - 1))) ` {0..<n}"
    unfolding lr_candidates_def set_map set_upt .
  then obtain i where "i \<in> {0..<n}"
    and lr: "lr = (if n = 1 then lo else lo * (hi / lo) powr (real i / real (n - 1)))"
    by (rule imageE)
  then have i: "i < n" by simp
  show ?thesis
  proof (cases "n = 1")
    case True
    with lr assms(2) show ?thesis by simp
  next
    case False
    with i have n: "2 \<le> n" by simp
    let ?t = "real i / real (n - 1)"
    let ?q = "hi / lo"
    from assms(1,2) have q: "1 \<le> ?q" by simp
    from i n have t: "0 \<le> ?t" "?t \<le> 1" by simp_all
    from assms(1,2) have q0: "hi \<noteq> 0" "lo \<noteq> 0" "0 < ?q" by simp_all
    from powr_mono [OF t(1) q] q0 have "1 \<le> ?q powr ?t" by simp
    moreover from powr_mono [OF t(2) q] q0 have "?q powr ?t \<le> ?q" by simp
    ultimately have bounds: "1 \<le> ?q powr ?t" "?q powr ?t \<le> ?q" by simp_all
    from bounds(1) assms(1) have "lo * 1 \<le> lo * ?q powr ?t"
      by (intro mult_left_mono) simp_all
    moreover from bounds(2) assms(1) have "lo * ?q powr ?t \<le> lo * ?q"
      by (intro mult_left_mono) simp_all
    moreover from q0 have "lo * ?q = hi" by simp
    ultimately have "lo \<le> lo * ?q powr ?t \<and> lo * ?q powr ?t \<le> hi" by simp
    with False lr show ?thesis by simp
  qed
qed

lemma best_candidate_member:
  assumes "best_candidate best cs = Some (lr, loss)"
  shows "best = Some (lr, loss) \<or> lr \<in> fst ` set cs"
  using assms
proof (induction best cs rule: best_candidate.induct)
  case (1 best)
  then show ?case by simp
next
  case (2 best lr' cs)
  then show ?case by auto
next
  case (3 lr' loss' cs)
  then show ?case by auto
next
  case (4 best_lr best_loss lr' loss' cs)
  then show ?case by (auto split: if_splits)
qed

lemma search_bracket:
  assumes "search trial lo hi n k = Inr lr"
  shows "0 < lo \<and> lo < hi \<and> lo \<le> lr \<and> lr \<le> hi"
proof -
  from assms have v: "0 < lo" "lo < hi"
    by (simp_all add: search_def split: if_splits)
  from assms obtain loss where
    "best_candidate None (map (\<lambda>lr. (lr, trial lr k)) (lr_candidates lo hi (nat n))) =
      Some (lr, loss)"
    by (auto simp: search_def split: if_splits option.splits)
  from best_candidate_member [OF this] have "lr \<in> set (lr_candidates lo hi (nat n))"
    by (auto simp: image_iff)
  from lr_candidates_bracket [OF v this] v show ?thesis by simp
qed

lemma spec_learning_rate_search_bracket:
  assumes "spec_learning_rate_search trial h = Inr lr"
  shows "\<exists>lo hi. lr_min (lr_search h) = Some lo \<and> lr_max (lr_search h) = Some hi \<and>
    0 < lo \<and> lo < hi \<and> lo \<le> lr \<and> lr \<le> hi"
proof -
  from assms obtain lo hi where b: "lr_min (lr_search h) = Some lo"
    "lr_max (lr_search h) = Some hi"
    and s: "search trial lo hi (num_steps (lr_search h)) (num_epochs_lr (lr_search h)) = Inr lr"
    by (auto simp: spec_learning_rate_search_def split: option.splits sum.splits)
  from search_bracket [OF s] b show ?thesis by simp
qed

lemma train_batches_step_cong:
  assumes "\<And>m x y lr. snd (f m x y lr) = snd (model_step E m x y lr)"
  shows "train_batches (E\<lparr>model_step := f\<rparr>) nt lr bs m w = train_batches E nt lr bs m w"
proof (induction bs arbitrary: m w)
  case Nil
  show ?case by simp
next
  case (Cons b bs)
  obtain x y where b: "b = (x, y)" by (cases b)
  show ?case
    by (simp add: b Let_def assms Cons.IH)
qed

lemma write_stats_step_cong:
  "write_stats (E\<lparr>model_step := f\<rparr>) tg te e t m w = write_stats E tg te e t m w"
  by (simp add: write_stats_def message_def)

lemma run_epoch_step_cong:
  assumes "\<And>m x y lr. snd (f m x y lr) = snd (model_step E m x y lr)"
  shows "run_epoch (E\<lparr>model_step := f\<rparr>) tg te lr nt c e m w = run_epoch E tg te lr nt c e m w"
  by (simp add: run_epoch_def train_batches_step_cong [of f E, OF assms]
      write_stats_step_cong Let_def split: prod.splits)

lemma run_epochs_step_cong:
  assumes "\<And>m x y lr. snd (f m x y lr) = snd (model_step E m x y lr)"
  shows "run_epochs (E\<lparr>model_step := f\<rparr>) tg te lr nt c es m w =
    run_epochs E tg te lr nt c es m w"
  by (induction es arbitrary: m w) (simp_all add: run_epoch_step_cong [of f E, OF assms])

lemma length_write_stats: "length (write_stats E tg te e t m []) = 9"
  by (simp add: write_stats_def Let_def case_prod_beta)

lemma length_epoch_events:
  assumes "stats_every_num_epochs h \<noteq> 0"
  shows "length (epoch_events E h lr e m) =
    length (training_dataloader E h) + 1 +
    (if on_cadence (stats_every_num_epochs h) e then 9 else 0)"
  by (simp add: epoch_events_eq [OF assms] mod_on_cadence [OF assms] step_events_def
      length_write_stats)

lemma length_epochs:
  assumes "stats_every_num_epochs h \<noteq> 0 \<or> es = []"
  shows "length (concat (map (\<lambda>e. epoch_events E h lr e (f e)) es)) =
    length es * (length (training_dataloader E h) + 1) +
    9 * length (filter (on_cadence (stats_every_num_epochs h)) es)"
  using assms
proof (induction es)
  case Nil
  show ?case by simp
next
  case (Cons e es)
  then have c: "stats_every_num_epochs h \<noteq> 0" by simp
  with Cons.IH have "length (concat (map (\<lambda>e. epoch_events E h lr e (f e)) es)) =
    length es * (length (training_dataloader E h) + 1) +
    9 * length (filter (on_cadence (stats_every_num_epochs h)) es)"
    by simp
  then show ?case
    by (simp add: length_epoch_events [OF c])
qed

lemma length_lr_search_events:
  "length (lr_search_events E h) =
    (case step_size h of
       Some s \<Rightarrow> 0
     | None \<Rightarrow> (case learning_rate_search E h of Inl err \<Rightarrow> 1 | Inr lr \<Rightarrow> 2))"
  by (simp add: lr_search_events_def resolve_step_size_def split: option.splits sum.splits)

lemma phases_completed_run:
  fixes E :: "('m, 'x, 'y, 'oh, 'r) env"
  assumes "raised (run_experiment E h) = None"
    and "step_size (hparams_out (run_experiment E h)) = Some lr"
  shows "phases_from INIT (trace (run_experiment E h)) =
    Some (replicate (if device h = ''cpu'' then 3 else 2) INIT @
      replicate (if step_size h = None then 2 else 0) LR_SEARCH @
      replicate 6 SETUP @
      replicate (nat (num_epochs h) *
          (length (training_dataloader E (hparams_out (run_experiment E h))) + 1) +
          9 * length (cadence_epochs h)) RUN_EPOCH @
      replicate 2 DONE)"
proof -
  let ?h' = "hparams_out (run_experiment E h)"
  let ?es = "[0..<nat (num_epochs h)]"
  let ?w = "concat (map (\<lambda>e. epoch_events E ?h' lr e (model_after E ?h' lr e)) ?es)"
  let ?q = "if step_size h = None then LR_SEARCH else INIT"
  let ?p = "if ?es = [] then SETUP else RUN_EPOCH"
  note run = completed_run [OF assms]
  have q: "?q = INIT \<or> ?q = LR_SEARCH" by simp
  have p: "?p = SETUP \<or> ?p = RUN_EPOCH" by simp
  have b: "length (lr_search_events E h) = (if step_size h = None then 2 else 0)"
    using run(6) by (auto simp: length_lr_search_events split: option.splits)
  have d: "length ?w =
      nat (num_epochs h) * (length (training_dataloader E ?h') + 1) +
      9 * length (cadence_epochs h)"
    by (simp add: length_epochs [OF run(2)] run(4) cadence_epochs_def)
  note start = goes_append [OF goes_init_world [of h] goes_lr_search_events [of E h]]
  have g2: "goes ?q (setup_events ?h' :: ('x, 'oh) event list) (replicate 6 SETUP) SETUP"
    by (rule goes_setup_events [OF q])
  have g3: "goes SETUP ?w (replicate (length ?w) RUN_EPOCH) ?p"
    by (rule goes_epochs [OF _ run(2)]) simp
  have g4: "goes ?p ([WriterClose, FileClose] :: ('x, 'oh) event list) [DONE, DONE] DONE"
    by (rule goes_done [OF p])
  have "goes INIT (trace (run_experiment E h))
      (replicate (if device h = ''cpu'' then 3 else 2) INIT @
        replicate (length (lr_search_events E h)) LR_SEARCH @ replicate 6 SETUP @
        replicate (length ?w) RUN_EPOCH @ replicate 2 DONE) DONE"
    using goes_append [OF goes_append [OF goes_append [OF start g2] g3] g4]
    by (simp add: run(1) numeral_2_eq_2)
  then have "phases_from INIT (trace (run_experiment E h)) =
      Some (replicate (if device h = ''cpu'' then 3 else 2) INIT @
        replicate (length (lr_search_events E h)) LR_SEARCH @ replicate 6 SETUP @
        replicate (length ?w) RUN_EPOCH @ replicate 2 DONE)"
    by (simp only: goes_def)
  then show ?thesis
    by (simp only: b d)
qed

lemma step_size_of_returning_run:
  assumes "raised (run_experiment E h) = None"
  shows "\<exists>lr. step_size (hparams_out (run_experiment E h)) = Some lr"
  using assms
  by (auto simp: raised_run_experiment hparams_out_run_experiment
      split: option.splits sum.splits if_splits)

subsection \<open>C1: what the training loop does with the optimizer step\<close>

text \<open>
  Claim C1 says that the step returns the updated parameters and that the training loop
  holds what it returns for the next batch. Line 61 is the statement
  \<^verbatim>\<open>model.step(x, y, step_size)\<close>: the step is a method of the model object and the
  value it returns is bound to nothing. With a step that is the pure function of the
  claim, returning the new parameter and leaving the object as it was, the loop over two
  batches does not go on from the parameter that the first step returned.
\<close>

theorem returned_parameters_not_held:
  "train_batches pure_env 2 1 [(1, 0), (2, 1)] 0 [] \<noteq>
   train_batches pure_env 2 1 [(2, 1)]
     (fst (model_step pure_env 0 1 (one_hot pure_env 0 2) 1))
     [ModelStep 1 (one_hot pure_env 0 2) 1]"
  by (simp add: pure_env_def int_env_def Let_def)

text \<open>
  Claim C1, amended. \<^verbatim>\<open>run_experiment\<close> calls \<^verbatim>\<open>model.step\<close> for its effect on the
  model object: a run is the same for any two steps that leave the same state in the
  object, whatever they return, and each step acts on the state that the step before it
  left in the object.
\<close>

theorem step_called_for_its_effect:
  assumes "\<And>m x y lr. snd (f m x y lr) = snd (model_step E m x y lr)"
  shows "run_experiment (E\<lparr>model_step := f\<rparr>) h = run_experiment E h \<and>
    train_model E nt lr (bs @ [(x, y)]) m =
      snd (model_step E (train_model E nt lr bs m) x (one_hot E y nt) lr)"
proof
  have "resolve_step_size (E\<lparr>model_step := f\<rparr>) h w = resolve_step_size E h w" for w
    by (simp add: resolve_step_size_def split: option.splits sum.splits)
  then show "run_experiment (E\<lparr>model_step := f\<rparr>) h = run_experiment E h"
    by (simp add: run_experiment_def run_epochs_step_cong [of f E, OF assms] Let_def
        split: sum.splits prod.splits option.splits)
  have "train_batches E nt lr (bs @ [(x, y)]) m w =
      (snd (model_step E (fst (train_batches E nt lr bs m w)) x (one_hot E y nt) lr),
       snd (train_batches E nt lr bs m w) @ [ModelStep x (one_hot E y nt) lr])" for w
  proof (induction bs arbitrary: m w)
    case Nil
    show ?case by (simp add: Let_def)
  next
    case (Cons b bs)
    obtain x' y' where b: "b = (x', y')" by (cases b)
    show ?case by (simp add: b Let_def Cons.IH)
  qed
  then show "train_model E nt lr (bs @ [(x, y)]) m =
      snd (model_step E (train_model E nt lr bs m) x (one_hot E y nt) lr)"
    by (simp add: train_model_def)
qed

theorem step_called_for_its_effect_witness:
  "(\<forall>m x y lr. snd ((\<lambda>m x y lr. (0, m + x)) m x y lr) = snd (model_step stateful_env m x y lr)) \<and>
   run_experiment (stateful_env\<lparr>model_step := \<lambda>m x y lr. (0, m + x)\<rparr>) demo_hparams =
     run_experiment stateful_env demo_hparams \<and>
   train_model stateful_env 2 1 ([(1, 0)] @ [(2, 1)]) 0 =
     snd (model_step stateful_env (train_model stateful_env 2 1 [(1, 0)] 0) 2
       (one_hot stateful_env 1 2) 1) \<and>
   train_model stateful_env 2 1 ([(1, 0)] @ [(2, 1)]) 0 = 3"
proof -
  have a: "snd ((\<lambda>m x y lr. (0, m + x)) m x y lr) = snd (model_step stateful_env m x y lr)"
    for m x y lr
    by (simp add: stateful_env_def int_env_def)
  have "train_model stateful_env 2 1 ([(1, 0)] @ [(2, 1)]) 0 = 3"
    by (simp add: train_model_def stateful_env_def int_env_def Let_def)
  with step_called_for_its_effect [of "\<lambda>m x y lr. (0, m + x)" stateful_env demo_hparams
      2 1 "[(1, 0)]" 2 1 0, OF a] a
  show ?thesis by simp
qed

subsection \<open>C2: the phases of a run and the step size of its epochs\<close>

text \<open>
  Claim C2. The world of every run of \<^verbatim>\<open>run_experiment\<close>, whether it returns or
  raises, goes through the phases in the order \<open>INIT\<close>, \<open>LR_SEARCH\<close>, (\<open>SETUP\<close>,)
  \<open>RUN_EPOCH\<close>, \<open>DONE\<close>: a stretch of \<open>INIT\<close>, which is never empty, then a stretch
  of \<open>LR_SEARCH\<close>, and so on. The stretch of \<open>LR_SEARCH\<close> is not empty if and only if
  the configured step size is \<^verbatim>\<open>None\<close>, and then the search is called once, on the
  dictionary of the run; \<open>DONE\<close> is reached if and only if the run returns. When the
  search runs and returns \<open>lr\<close>, the dictionary holds \<open>lr\<close> as the step size from then
  on and every step of the run is taken with \<open>lr\<close>.

  A run that returns has a step size \<open>lr\<close> in its dictionary, and its phases and steps
  are these. \<open>INIT\<close> has two events, three with the device \<^verbatim>\<open>cpu\<close>; \<open>LR_SEARCH\<close>
  has two, the call and the print, when the search ran, and none otherwise; \<open>SETUP\<close> has
  six; \<open>RUN_EPOCH\<close> has, for each of the \<^verbatim>\<open>num_epochs\<close> epochs, one event for
  each training batch and one for the epoch time, and nine more for each epoch on the
  cadence; \<open>DONE\<close> has two. The steps are those of \<^verbatim>\<open>num_epochs\<close> passes over the
  training batches, each taken with \<open>lr\<close>.
\<close>

theorem phases_in_order:
  fixes E :: "('m, 'x, 'y, 'oh, 'r) env"
  shows "(\<exists>a b c d e.
      phases_from INIT (trace (run_experiment E h)) =
        Some (replicate a INIT @ replicate b LR_SEARCH @ replicate c SETUP @
          replicate d RUN_EPOCH @ replicate e DONE) \<and>
      0 < a \<and> (0 < b \<longleftrightarrow> step_size h = None) \<and>
      (0 < e \<longleftrightarrow> raised (run_experiment E h) = None)) \<and>
    searches (trace (run_experiment E h)) = (if step_size h = None then [h] else []) \<and>
    (\<forall>lr. step_size h = None \<and> learning_rate_search E h = Inr lr \<longrightarrow>
      step_size (hparams_out (run_experiment E h)) = Some lr \<and>
      (\<forall>s \<in> set (model_steps (trace (run_experiment E h))). snd (snd s) = lr)) \<and>
    (raised (run_experiment E h) = None \<longrightarrow>
      (\<exists>lr. step_size (hparams_out (run_experiment E h)) = Some lr)) \<and>
    (\<forall>lr. raised (run_experiment E h) = None \<and>
        step_size (hparams_out (run_experiment E h)) = Some lr \<longrightarrow>
      phases_from INIT (trace (run_experiment E h)) =
        Some (replicate (if device h = ''cpu'' then 3 else 2) INIT @
          replicate (if step_size h = None then 2 else 0) LR_SEARCH @
          replicate 6 SETUP @
          replicate (nat (num_epochs h) *
              (length (training_dataloader E (hparams_out (run_experiment E h))) + 1) +
              9 * length (cadence_epochs h)) RUN_EPOCH @
          replicate 2 DONE) \<and>
      model_steps (trace (run_experiment E h)) =
        concat (replicate (nat (num_epochs h))
          (map (\<lambda>(x, y). (x, one_hot E y (num_targets h), lr))
            (training_dataloader E (hparams_out (run_experiment E h))))))"
proof -
  have a: "step_size (hparams_out (run_experiment E h)) = Some lr \<and>
      (\<forall>s \<in> set (model_steps (trace (run_experiment E h))). snd (snd s) = lr)"
    if "step_size h = None" and "learning_rate_search E h = Inr lr" for lr
  proof -
    have "step_size (hparams_out (run_experiment E h)) = Some lr"
      using that by (simp add: hparams_out_run_experiment)
    with step_sizes_of_run [OF this] show ?thesis by simp
  qed
  have b: "phases_from INIT (trace (run_experiment E h)) =
        Some (replicate (if device h = ''cpu'' then 3 else 2) INIT @
          replicate (if step_size h = None then 2 else 0) LR_SEARCH @
          replicate 6 SETUP @
          replicate (nat (num_epochs h) *
              (length (training_dataloader E (hparams_out (run_experiment E h))) + 1) +
              9 * length (cadence_epochs h)) RUN_EPOCH @
          replicate 2 DONE) \<and>
      model_steps (trace (run_experiment E h)) =
        concat (replicate (nat (num_epochs h))
          (map (\<lambda>(x, y). (x, one_hot E y (num_targets h), lr))
            (training_dataloader E (hparams_out (run_experiment E h)))))"
    if "raised (run_experiment E h) = None"
      and "step_size (hparams_out (run_experiment E h)) = Some lr" for lr
    using phases_completed_run [OF that] model_steps_completed_run [OF that] by simp
  from a b show ?thesis
    using phases_of_run [of E h] searches_run_experiment [of E h]
      step_size_of_returning_run [of E h]
    by blast
qed

theorem phases_in_order_witness:
  "step_size demo_hparams = None \<and> learning_rate_search demo_env demo_hparams = Inr 1 \<and>
   raised (run_experiment demo_env demo_hparams) = None \<and>
   step_size (hparams_out (run_experiment demo_env demo_hparams)) = Some 1 \<and>
   searches (trace (run_experiment demo_env demo_hparams)) = [demo_hparams] \<and>
   phases_from INIT (trace (run_experiment demo_env demo_hparams)) =
     Some (replicate 2 INIT @ replicate 2 LR_SEARCH @ replicate 6 SETUP @
       replicate 15 RUN_EPOCH @ replicate 2 DONE) \<and>
   model_steps (trace (run_experiment demo_env demo_hparams)) =
     [(1, (0, 2), 1), (2, (1, 2), 1), (1, (0, 2), 1), (2, (1, 2), 1)]"
proof -
  have s: "step_size demo_hparams = None"
    by (simp add: demo_hparams_def)
  have l: "learning_rate_search demo_env demo_hparams = Inr 1"
    by (simp add: demo_env_def)
  have r: "raised (run_experiment demo_env demo_hparams) = None"
    by (rule demo_run(1))
  have o: "step_size (hparams_out (run_experiment demo_env demo_hparams)) = Some 1"
    by (simp add: demo_run(2))
  note run = phases_in_order [of demo_env demo_hparams]
  from run s
  have se: "searches (trace (run_experiment demo_env demo_hparams)) = [demo_hparams]"
    by simp
  from run r o
  have "phases_from INIT (trace (run_experiment demo_env demo_hparams)) =
        Some (replicate (if device demo_hparams = ''cpu'' then 3 else 2) INIT @
          replicate (if step_size demo_hparams = None then 2 else 0) LR_SEARCH @
          replicate 6 SETUP @
          replicate (nat (num_epochs demo_hparams) *
              (length (training_dataloader demo_env
                (hparams_out (run_experiment demo_env demo_hparams))) + 1) +
              9 * length (cadence_epochs demo_hparams)) RUN_EPOCH @
          replicate 2 DONE) \<and>
      model_steps (trace (run_experiment demo_env demo_hparams)) =
        concat (replicate (nat (num_epochs demo_hparams))
          (map (\<lambda>(x, y). (x, one_hot demo_env y (num_targets demo_hparams), 1))
            (training_dataloader demo_env
              (hparams_out (run_experiment demo_env demo_hparams)))))"
    by blast
  then have "phases_from INIT (trace (run_experiment demo_env demo_hparams)) =
     Some (replicate 2 INIT @ replicate 2 LR_SEARCH @ replicate 6 SETUP @
       replicate 15 RUN_EPOCH @ replicate 2 DONE) \<and>
   model_steps (trace (run_experiment demo_env demo_hparams)) =
     [(1, (0, 2), 1), (2, (1, 2), 1), (1, (0, 2), 1), (2, (1, 2), 1)]"
    by (simp add: demo_epochs(2) s, simp add: demo_env_def demo_hparams_def numeral_2_eq_2)
  with s l r o se show ?thesis by blast
qed

subsection \<open>C3: the script's second experiment inherits the step size of the first\<close>

text \<open>
  Claim C3. \<^verbatim>\<open>run_experiment\<close> writes the learning rate the search found into the
  dictionary it was given (line 37), and the script hands the same dictionary to both
  experiments. So when the search of the SGD experiment returns \<open>lr\<close>, the dictionary
  comes back with \<^verbatim>\<open>step_size\<close> set to \<open>lr\<close>; the SNG experiment runs on that
  dictionary, with only the optimizer name changed, calls no search of its own, and takes
  every one of its steps with the step size \<open>lr\<close>. The whole script calls the search
  once, for SGD.
\<close>

theorem script_shares_step_size:
  assumes "learning_rate_search E (select_optimizer ''sgd'' script_hparams) = Inr lr"
  shows "hparams_out (run_experiment E (select_optimizer ''sgd'' script_hparams)) =
      (select_optimizer ''sgd'' script_hparams)\<lparr>step_size := Some lr\<rparr> \<and>
    trace (main E) =
      [Print ''Experiment SGD'', Print (json_dumps E (select_optimizer ''sgd'' script_hparams))] @
      trace (run_experiment E (select_optimizer ''sgd'' script_hparams)) @
      [Print ''Experiment SNG'',
       Print (json_dumps E (select_optimizer ''sng''
         ((select_optimizer ''sgd'' script_hparams)\<lparr>step_size := Some lr\<rparr>)))] @
      trace (run_experiment E (select_optimizer ''sng''
        ((select_optimizer ''sgd'' script_hparams)\<lparr>step_size := Some lr\<rparr>))) \<and>
    searches (trace (run_experiment E (select_optimizer ''sng''
        ((select_optimizer ''sgd'' script_hparams)\<lparr>step_size := Some lr\<rparr>)))) = [] \<and>
    model_steps (trace (run_experiment E (select_optimizer ''sng''
        ((select_optimizer ''sgd'' script_hparams)\<lparr>step_size := Some lr\<rparr>)))) =
      concat (replicate 100 (map (\<lambda>(x, y). (x, one_hot E y 10, lr))
        (training_dataloader E (select_optimizer ''sng''
          ((select_optimizer ''sgd'' script_hparams)\<lparr>step_size := Some lr\<rparr>))))) \<and>
    searches (trace (main E)) = [select_optimizer ''sgd'' script_hparams]"
proof -
  let ?sgd = "select_optimizer ''sgd'' script_hparams"
  let ?sng = "select_optimizer ''sng'' (?sgd\<lparr>step_size := Some lr\<rparr>)"
  have out: "hparams_out (run_experiment E ?sgd) = ?sgd\<lparr>step_size := Some lr\<rparr>"
    by (simp add: hparams_out_run_experiment assms select_optimizer_simps script_hparams_simps)
  have r1: "raised (run_experiment E ?sgd) = None"
    by (simp add: raised_run_experiment assms select_optimizer_simps script_hparams_simps)
  have s2: "step_size ?sng = Some lr"
    by (simp add: select_optimizer_simps)
  have r2: "raised (run_experiment E ?sng) = None"
    by (simp add: raised_run_experiment select_optimizer_simps script_hparams_simps)
  have o2: "hparams_out (run_experiment E ?sng) = ?sng"
    by (simp add: hparams_out_run_experiment select_optimizer_simps)
  have tr: "trace (main E) =
      [Print ''Experiment SGD'', Print (json_dumps E ?sgd)] @ trace (run_experiment E ?sgd) @
      [Print ''Experiment SNG'', Print (json_dumps E ?sng)] @ trace (run_experiment E ?sng)"
    by (simp add: main_def Let_def r1 out)
  have se: "searches (trace (run_experiment E ?sng)) = []"
    by (simp add: searches_run_experiment select_optimizer_simps)
  have l2: "step_size (hparams_out (run_experiment E ?sng)) = Some lr"
    by (simp add: o2 s2)
  have ms: "model_steps (trace (run_experiment E ?sng)) =
      concat (replicate 100 (map (\<lambda>(x, y). (x, one_hot E y 10, lr))
        (training_dataloader E ?sng)))"
    using model_steps_completed_run [OF r2 l2]
    by (simp add: o2 select_optimizer_simps script_hparams_simps)
  have "searches (trace (main E)) = [?sgd]"
    by (simp add: tr projections_append projections_Cons projections_Nil se
        searches_run_experiment select_optimizer_simps script_hparams_simps)
  with out tr se ms show ?thesis by simp
qed

theorem script_shares_step_size_witness:
  "learning_rate_search demo_env (select_optimizer ''sgd'' script_hparams) = Inr 1 \<and>
   hparams_out (run_experiment demo_env (select_optimizer ''sgd'' script_hparams)) =
     (select_optimizer ''sgd'' script_hparams)\<lparr>step_size := Some 1\<rparr> \<and>
   searches (trace (run_experiment demo_env (select_optimizer ''sng''
     ((select_optimizer ''sgd'' script_hparams)\<lparr>step_size := Some 1\<rparr>)))) = [] \<and>
   searches (trace (main demo_env)) = [select_optimizer ''sgd'' script_hparams]"
proof -
  have h: "learning_rate_search demo_env (select_optimizer ''sgd'' script_hparams) = Inr 1"
    by (simp add: demo_env_def)
  from script_shares_step_size [OF h] h show ?thesis
    by (elim conjE) (intro conjI, assumption+)
qed

subsection \<open>C4: evaluation, scalars and the run log at the cadence\<close>

text \<open>
  Claim C4. In a run that returns, the epochs whose 1-based index is a multiple of
  \<^verbatim>\<open>stats_every_num_epochs\<close> are exactly the epochs at which the loop evaluates the
  model, first on the training stream and then on the test stream, hands the two
  accuracies and the two losses to the writer, and appends one record to the run log, made
  of the epoch, the epoch time, the training loss, the test loss, the training accuracy and
  the test accuracy. At every other epoch nothing is evaluated and nothing is written to
  the run log.
\<close>

theorem stats_on_cadence:
  assumes "raised (run_experiment E h) = None"
    and "step_size (hparams_out (run_experiment E h)) = Some lr"
  shows "evaluations (trace (run_experiment E h)) =
      concat (map (\<lambda>e. [TrainingStream, TestStream]) (cadence_epochs h)) \<and>
    scalars (trace (run_experiment E h)) =
      concat (map (\<lambda>e. (''Epoch_time'', epoch_time E e, int e) #
          (if on_cadence (stats_every_num_epochs h) e
           then stats_scalars E (hparams_out (run_experiment E h)) lr e else []))
        [0..<nat (num_epochs h)]) \<and>
    run_log (trace (run_experiment E h)) =
      map (log_record E (hparams_out (run_experiment E h)) lr) (cadence_epochs h)"
proof -
  note run = completed_run [OF assms]
  have "evaluations (trace (run_experiment E h)) =
      concat (map (\<lambda>e. [TrainingStream, TestStream]) (cadence_epochs h))"
    by (simp add: run(1) projections_append projections_init_world
        projections_lr_search_events projections_setup_events
        projections_epochs(4) [OF run(2)] run(4) projections_Nil projections_Cons
        cadence_epochs_def)
  moreover have "run_log (trace (run_experiment E h)) =
      map (log_record E (hparams_out (run_experiment E h)) lr) (cadence_epochs h)"
    by (simp add: run(1) projections_append projections_init_world
        projections_lr_search_events projections_setup_events
        projections_epochs(5) [OF run(2)] run(4) projections_Nil projections_Cons
        cadence_epochs_def)
  ultimately show ?thesis
    using scalars_completed_run [OF assms] by simp
qed

theorem stats_on_cadence_witness:
  "raised (run_experiment demo_env demo_hparams) = None \<and>
   step_size (hparams_out (run_experiment demo_env demo_hparams)) = Some 1 \<and>
   evaluations (trace (run_experiment demo_env demo_hparams)) = [TrainingStream, TestStream] \<and>
   scalars (trace (run_experiment demo_env demo_hparams)) =
     [(''Epoch_time'', 0, 0), (''Epoch_time'', 0, 1),
      (''Accuracy/train'', 0, 1), (''Accuracy/test'', 0, 1),
      (''Loss/train'', 6, 1), (''Loss/test'', 6, 1)] \<and>
   run_log (trace (run_experiment demo_env demo_hparams)) =
     [''i f2 f4 f4 f4 f4'' @ [CHR 0x0A]]"
proof -
  have r: "raised (run_experiment demo_env demo_hparams) = None"
    by (rule demo_run(1))
  have s: "step_size (hparams_out (run_experiment demo_env demo_hparams)) = Some 1"
    by (simp add: demo_run(2))
  have m: "model_after demo_env (demo_hparams\<lparr>step_size := Some 1\<rparr>) 1 (Suc (Suc 0)) = 6"
    by (simp add: model_after_def train_model_def demo_env_def demo_hparams_def)
  have c: "on_cadence (stats_every_num_epochs demo_hparams) (Suc 0)"
    "\<not> on_cadence (stats_every_num_epochs demo_hparams) 0"
    by (simp_all add: on_cadence_def demo_hparams_def)
  have "evaluations (trace (run_experiment demo_env demo_hparams)) = [TrainingStream, TestStream] \<and>
   scalars (trace (run_experiment demo_env demo_hparams)) =
     [(''Epoch_time'', 0, 0), (''Epoch_time'', 0, 1),
      (''Accuracy/train'', 0, 1), (''Accuracy/test'', 0, 1),
      (''Loss/train'', 6, 1), (''Loss/test'', 6, 1)] \<and>
   run_log (trace (run_experiment demo_env demo_hparams)) =
     [''i f2 f4 f4 f4 f4'' @ [CHR 0x0A]]"
    using stats_on_cadence [OF r s]
    by (simp add: demo_run(2) demo_epochs c stats_scalars_def log_record_def m message_def,
        simp add: demo_env_def)
  with r s show ?thesis by simp
qed

subsection \<open>C5: which scalars the writer gets, and when\<close>

text \<open>
  Claim C5 says that loss, accuracy and epoch time all reach the metrics sink only at the
  epochs on the cadence. Line 64 hands the epoch time to the writer before the cadence
  test of line 66: with two epochs and a cadence of two, the writer gets the epoch time
  of the first epoch, whose 1-based index 1 is no multiple of 2.
\<close>

theorem epoch_time_off_cadence:
  "(''Epoch_time'', 0, 0) \<in> set (scalars (trace (run_experiment demo_env demo_hparams))) \<and>
   \<not> on_cadence (stats_every_num_epochs demo_hparams) 0"
proof -
  have r: "raised (run_experiment demo_env demo_hparams) = None"
    by (rule demo_run(1))
  have s: "step_size (hparams_out (run_experiment demo_env demo_hparams)) = Some 1"
    by (simp add: demo_run(2))
  have "(''Epoch_time'', 0, 0) \<in> set (scalars (trace (run_experiment demo_env demo_hparams)))"
    by (simp add: scalars_completed_run [OF r s] demo_epochs, simp add: demo_env_def)
  moreover have "\<not> on_cadence (stats_every_num_epochs demo_hparams) 0"
    by (simp add: on_cadence_def demo_hparams_def)
  ultimately show ?thesis by simp
qed

text \<open>
  Claim C5, amended. In a run that returns, the writer gets the scalar
  \<^verbatim>\<open>Epoch_time\<close> once at every epoch; the loss and accuracy scalars it gets only at
  the epochs on the cadence, four at each.
\<close>

theorem sink_per_scalar_kind:
  assumes "raised (run_experiment E h) = None"
    and "step_size (hparams_out (run_experiment E h)) = Some lr"
  shows "filter (\<lambda>s. fst s = ''Epoch_time'') (scalars (trace (run_experiment E h))) =
      map (\<lambda>e. (''Epoch_time'', epoch_time E e, int e)) [0..<nat (num_epochs h)] \<and>
    filter (\<lambda>s. fst s \<noteq> ''Epoch_time'') (scalars (trace (run_experiment E h))) =
      concat (map (stats_scalars E (hparams_out (run_experiment E h)) lr) (cadence_epochs h))"
  by (simp add: scalars_completed_run [OF assms] filter_concat_epoch_scalars cadence_epochs_def)

theorem sink_per_scalar_kind_witness:
  "raised (run_experiment demo_env demo_hparams) = None \<and>
   step_size (hparams_out (run_experiment demo_env demo_hparams)) = Some 1 \<and>
   filter (\<lambda>s. fst s = ''Epoch_time'')
       (scalars (trace (run_experiment demo_env demo_hparams))) =
     [(''Epoch_time'', 0, 0), (''Epoch_time'', 0, 1)] \<and>
   filter (\<lambda>s. fst s \<noteq> ''Epoch_time'')
       (scalars (trace (run_experiment demo_env demo_hparams))) =
     [(''Accuracy/train'', 0, 1), (''Accuracy/test'', 0, 1),
      (''Loss/train'', 6, 1), (''Loss/test'', 6, 1)]"
proof -
  have r: "raised (run_experiment demo_env demo_hparams) = None"
    by (rule demo_run(1))
  have s: "step_size (hparams_out (run_experiment demo_env demo_hparams)) = Some 1"
    by (simp add: demo_run(2))
  have m: "model_after demo_env (demo_hparams\<lparr>step_size := Some 1\<rparr>) 1 (Suc (Suc 0)) = 6"
    by (simp add: model_after_def train_model_def demo_env_def demo_hparams_def)
  have "filter (\<lambda>s. fst s = ''Epoch_time'')
       (scalars (trace (run_experiment demo_env demo_hparams))) =
     [(''Epoch_time'', 0, 0), (''Epoch_time'', 0, 1)] \<and>
   filter (\<lambda>s. fst s \<noteq> ''Epoch_time'')
       (scalars (trace (run_experiment demo_env demo_hparams))) =
     [(''Accuracy/train'', 0, 1), (''Accuracy/test'', 0, 1),
      (''Loss/train'', 6, 1), (''Loss/test'', 6, 1)]"
    using sink_per_scalar_kind [OF r s]
    by (simp add: demo_run(2) demo_epochs stats_scalars_def m, simp add: demo_env_def)
  with r s show ?thesis by simp
qed

subsection \<open>C6: the fields of the configuration\<close>

text \<open>
  Claim C6 lists eleven fields of the configuration. The dictionary of the script has no
  key for three of them: the shard count of SNG, the clip bound \<open>r_max\<close> and the
  stabilizing constant \<open>\<epsilon>\<close>.
\<close>

theorem configuration_lacks_sng_fields:
  "ShardCount \<in> set spec_configuration \<and> ShardCount \<notin> set hparams_fields \<and>
   ClipBound \<in> set spec_configuration \<and> ClipBound \<notin> set hparams_fields \<and>
   StabilizingConstant \<in> set spec_configuration \<and> StabilizingConstant \<notin> set hparams_fields"
  by (simp add: spec_configuration_def hparams_fields_def hparams_keys_def lr_search_keys_def
      field_of_key_def field_of_lr_search_key_def)

text \<open>
  Claim C6, amended. The dictionary holds the step size, the number of epochs, the batch
  size, the device selector and, under \<^verbatim>\<open>lr_search\<close>, the two ends of the bracket, the
  number of candidates and the trial-epoch count. Of the fields of the specification
  exactly the shard count, the clip bound and the stabilizing constant are missing. The
  other keys of the dictionary are \<^verbatim>\<open>dataset\<close>, \<^verbatim>\<open>layer_sizes\<close>,
  \<^verbatim>\<open>num_targets\<close>, \<^verbatim>\<open>num_workers\<close>, \<^verbatim>\<open>stats_every_num_epochs\<close> and
  \<^verbatim>\<open>optimizer\<close>.
\<close>

theorem configuration_fields:
  "hparams_fields =
     [StepSize, NumberOfEpochs, BatchSize, DeviceSelector,
      BracketLrMin, BracketLrMax, NumberOfCandidates, TrialEpochCount] \<and>
   set spec_configuration - set hparams_fields = {ShardCount, ClipBound, StabilizingConstant} \<and>
   filter (\<lambda>k. field_of_key k = None) hparams_keys =
     [''dataset'', ''layer_sizes'', ''lr_search'', ''num_targets'', ''num_workers'',
      ''stats_every_num_epochs'', ''optimizer'']"
  by (auto simp: spec_configuration_def hparams_fields_def hparams_keys_def lr_search_keys_def
      field_of_key_def field_of_lr_search_key_def)

subsection \<open>C7: the step size of training and the bracket of the search\<close>

text \<open>
  Claim C7 says that the step size used during training always lies within the configured
  bracket. \<^verbatim>\<open>run_experiment\<close> calls the search only for a step size of \<^verbatim>\<open>None\<close>
  (line 34); a configured step size is used as it is (line 40) and is never compared with
  the bracket. With a step size of \<open>5\<close> configured next to the bracket from \<open>1/2\<close> to
  \<open>2\<close>, the run returns and its first step is taken with \<open>5\<close>.
\<close>

theorem pinned_step_size_outside_bracket:
  "lr_min (lr_search pinned_hparams) = Some (1 / 2) \<and>
   lr_max (lr_search pinned_hparams) = Some 2 \<and>
   raised (run_experiment demo_env pinned_hparams) = None \<and>
   (1, (0, 2), 5) \<in> set (model_steps (trace (run_experiment demo_env pinned_hparams))) \<and>
   \<not> (5 :: real) \<le> 2"
proof -
  have r: "raised (run_experiment demo_env pinned_hparams) = None"
    by (simp add: raised_run_experiment pinned_hparams_def demo_hparams_def)
  have s: "step_size (hparams_out (run_experiment demo_env pinned_hparams)) = Some 5"
    by (simp add: hparams_out_run_experiment pinned_hparams_def demo_hparams_def)
  have "(1, (0, 2), 5) \<in> set (model_steps (trace (run_experiment demo_env pinned_hparams)))"
    by (simp add: model_steps_completed_run [OF r s],
        simp add: hparams_out_run_experiment pinned_hparams_def demo_hparams_def demo_env_def)
  with r show ?thesis
    by (simp add: pinned_hparams_def demo_hparams_def)
qed

text \<open>
  Claim C7, amended. The search of the specification returns a step size within its
  bracket. With that search, a run whose configured step size is \<^verbatim>\<open>None\<close> takes every
  step with a step size within the bracket \<open>[lr_min, lr_max]\<close> of its dictionary; a run
  with a configured step size takes every step with that step size, whatever the bracket.
\<close>

theorem training_step_size:
  assumes "learning_rate_search E = spec_learning_rate_search trial"
  shows "(search trial lo hi n k = Inr lr \<longrightarrow> lo \<le> lr \<and> lr \<le> hi) \<and>
    (step_size h = None \<longrightarrow>
      (\<forall>s \<in> set (model_steps (trace (run_experiment E h))).
        \<exists>lo hi. lr_min (lr_search h) = Some lo \<and> lr_max (lr_search h) = Some hi \<and>
          lo \<le> snd (snd s) \<and> snd (snd s) \<le> hi)) \<and>
    (\<forall>s0. step_size h = Some s0 \<longrightarrow>
      (\<forall>s \<in> set (model_steps (trace (run_experiment E h))). snd (snd s) = s0))"
proof (intro conjI impI allI ballI)
  assume "search trial lo hi n k = Inr lr"
  from search_bracket [OF this] show "lo \<le> lr" and "lr \<le> hi" by simp_all
next
  fix s
  assume n: "step_size h = None"
    and s: "s \<in> set (model_steps (trace (run_experiment E h)))"
  show "\<exists>lo hi. lr_min (lr_search h) = Some lo \<and> lr_max (lr_search h) = Some hi \<and>
      lo \<le> snd (snd s) \<and> snd (snd s) \<le> hi"
  proof (cases "learning_rate_search E h")
    case (Inl err)
    with n have "hparams_out (run_experiment E h) = h" and "raised (run_experiment E h) = Some err"
      by (simp_all add: hparams_out_run_experiment raised_run_experiment)
    have "model_steps (trace (run_experiment E h)) = []"
    proof (cases rule: run_experiment_cases [of h E])
      case (search_failed err)
      then show ?thesis
        by (simp add: projections_append projections_init_world projections_lr_search_events)
    next
      case (zero_cadence lr h')
      with n Inl show ?thesis by simp
    next
      case (completed lr h')
      with n Inl show ?thesis by simp
    qed
    with s show ?thesis by simp
  next
    case (Inr best_lr)
    with n have "step_size (hparams_out (run_experiment E h)) = Some best_lr"
      by (simp add: hparams_out_run_experiment)
    from step_sizes_of_run [OF this] s have "snd (snd s) = best_lr" by blast
    moreover from Inr assms have "spec_learning_rate_search trial h = Inr best_lr" by simp
    from spec_learning_rate_search_bracket [OF this]
    have "\<exists>lo hi. lr_min (lr_search h) = Some lo \<and> lr_max (lr_search h) = Some hi \<and>
      lo \<le> best_lr \<and> best_lr \<le> hi"
      by blast
    ultimately show ?thesis by simp
  qed
next
  fix s0 s
  assume "step_size h = Some s0"
    and s: "s \<in> set (model_steps (trace (run_experiment E h)))"
  then have "step_size (hparams_out (run_experiment E h)) = Some s0"
    by (simp add: hparams_out_run_experiment)
  from step_sizes_of_run [OF this] s show "snd (snd s) = s0" by blast
qed

theorem training_step_size_witness:
  "learning_rate_search spec_env = spec_learning_rate_search (\<lambda>lr k. Some lr) \<and>
   search (\<lambda>lr k. Some lr) (1 / 2) 2 1 1 = Inr (1 / 2) \<and>
   step_size demo_hparams = None \<and>
   learning_rate_search spec_env demo_hparams = Inr (1 / 2) \<and>
   list_all (\<lambda>s. \<exists>lo hi. lr_min (lr_search demo_hparams) = Some lo \<and>
       lr_max (lr_search demo_hparams) = Some hi \<and> lo \<le> snd (snd s) \<and> snd (snd s) \<le> hi)
     (model_steps (trace (run_experiment spec_env demo_hparams))) \<and>
   step_size pinned_hparams = Some 5 \<and>
   list_all (\<lambda>s. snd (snd s) = 5) (model_steps (trace (run_experiment spec_env pinned_hparams)))"
proof -
  have e: "learning_rate_search spec_env = spec_learning_rate_search (\<lambda>lr k. Some lr)"
    by (simp add: spec_env_def)
  have c: "search (\<lambda>lr k. Some lr) (1 / 2) 2 1 1 = Inr (1 / 2)"
    by (simp add: search_def lr_candidates_def)
  have n: "step_size demo_hparams = None"
    by (simp add: demo_hparams_def)
  have p: "step_size pinned_hparams = Some 5"
    by (simp add: pinned_hparams_def)
  from training_step_size [OF e, of "1 / 2" 2 1 1 "1 / 2" demo_hparams] n
  have "list_all (\<lambda>s. \<exists>lo hi. lr_min (lr_search demo_hparams) = Some lo \<and>
       lr_max (lr_search demo_hparams) = Some hi \<and> lo \<le> snd (snd s) \<and> snd (snd s) \<le> hi)
     (model_steps (trace (run_experiment spec_env demo_hparams)))"
    unfolding list_all_iff by blast
  moreover from training_step_size [OF e, of "1 / 2" 2 1 1 "1 / 2" pinned_hparams] p
  have "list_all (\<lambda>s. snd (snd s) = 5)
    (model_steps (trace (run_experiment spec_env pinned_hparams)))"
    unfolding list_all_iff by blast
  moreover have "learning_rate_search spec_env demo_hparams = Inr (1 / 2)"
    by (simp add: spec_env_def spec_learning_rate_search_def demo_hparams_def search_def
        lr_candidates_def)
  ultimately show ?thesis using e c n p by blast
qed

subsection \<open>C8: one optimizer step per batch, on one-hot labels\<close>

text \<open>
  Claim C8. In a run that returns, \<^verbatim>\<open>model.step\<close> is called exactly once for every
  training batch of every epoch, in the order of the batches, epoch after epoch; each call
  gets the input of the batch, its label one-hot encoded with \<^verbatim>\<open>num_targets\<close> classes,
  and the step size of the run.
\<close>

theorem one_step_per_batch:
  assumes "raised (run_experiment E h) = None"
    and "step_size (hparams_out (run_experiment E h)) = Some lr"
  shows "model_steps (trace (run_experiment E h)) =
    concat (replicate (nat (num_epochs h))
      (map (\<lambda>(x, y). (x, one_hot E y (num_targets h), lr))
        (training_dataloader E (hparams_out (run_experiment E h)))))"
proof -
  note run = completed_run [OF assms]
  show ?thesis
    by (simp add: run(1) projections_append projections_init_world
        projections_lr_search_events projections_setup_events
        projections_epochs(2) [OF run(2)] run(3) projections_Nil projections_Cons
        map_replicate_const)
qed

theorem one_step_per_batch_witness:
  "raised (run_experiment demo_env demo_hparams) = None \<and>
   step_size (hparams_out (run_experiment demo_env demo_hparams)) = Some 1 \<and>
   model_steps (trace (run_experiment demo_env demo_hparams)) =
     [(1, (0, 2), 1), (2, (1, 2), 1), (1, (0, 2), 1), (2, (1, 2), 1)]"
proof -
  have r: "raised (run_experiment demo_env demo_hparams) = None"
    by (rule demo_run(1))
  have s: "step_size (hparams_out (run_experiment demo_env demo_hparams)) = Some 1"
    by (simp add: demo_run(2))
  have "model_steps (trace (run_experiment demo_env demo_hparams)) =
     [(1, (0, 2), 1), (2, (1, 2), 1), (1, (0, 2), 1), (2, (1, 2), 1)]"
    using one_step_per_batch [OF r s]
    by (simp add: demo_run(2), simp add: demo_env_def demo_hparams_def numeral_2_eq_2)
  with r s show ?thesis by simp
qed

subsection \<open>C9: the clipped signal-to-noise ratio\<close>

text \<open>
  Claim C9, on the optimizer step of the specification. In an SNG step that is no
  configuration error, with a positive \<open>\<epsilon>\<close> and a bound \<open>r_max\<close> that is not
  negative, take any element of any parameter tensor whose standard deviation is not
  negative. Then \<open>std + \<epsilon>\<close> is not zero, the ratio \<open>r\<close> of the element is
  \<open>mean / (std + \<epsilon>)\<close> clipped to \<open>[-r_max, r_max]\<close> and lies in that interval, and
  the new value of the element is \<open>param - step_size * r\<close>.
\<close>

theorem sng_ratio_clipped:
  assumes "0 < eps" and "0 \<le> r_max"
    and "sng_step estimate num_shards eps r_max params batch eta = Inr params'"
    and "k < length params" and "k < length (estimate params batch num_shards)"
    and "estimate params batch num_shards ! k = (means, stds)"
    and "i < length (params ! k)" and "i < length means" and "i < length stds"
    and "0 \<le> stds ! i"
  shows "stds ! i + eps \<noteq> 0 \<and>
    sng_ratio eps r_max (means ! i) (stds ! i) =
      min (max (means ! i / (stds ! i + eps)) (- r_max)) r_max \<and>
    - r_max \<le> sng_ratio eps r_max (means ! i) (stds ! i) \<and>
    sng_ratio eps r_max (means ! i) (stds ! i) \<le> r_max \<and>
    params' ! k ! i = params ! k ! i - eta * sng_ratio eps r_max (means ! i) (stds ! i)"
proof -
  from assms(1,10) have "stds ! i + eps \<noteq> 0" by simp
  moreover have "sng_ratio eps r_max (means ! i) (stds ! i) =
      min (max (means ! i / (stds ! i + eps)) (- r_max)) r_max"
    by (simp add: sng_ratio_def clip_def)
  moreover from assms(2) have "- r_max \<le> r_max" by simp
  then have "- r_max \<le> sng_ratio eps r_max (means ! i) (stds ! i)"
    and "sng_ratio eps r_max (means ! i) (stds ! i) \<le> r_max"
    unfolding sng_ratio_def by (rule clip_bounds)+
  moreover have "params' ! k ! i =
      params ! k ! i - eta * sng_ratio eps r_max (means ! i) (stds ! i)"
  proof -
    from assms(3) have "params' =
        map (\<lambda>(param, stats). sng_tensor eta eps r_max param stats)
          (zip params (estimate params batch num_shards))"
      by (simp add: sng_step_def split: if_splits)
    then have "params' ! k = sng_tensor eta eps r_max (params ! k) (means, stds)"
      using assms(4,5,6) by simp
    then show ?thesis
      using sng_tensor_nth [of i "params ! k" "(means, stds)"] assms(7,8,9) by simp
  qed
  ultimately show ?thesis by simp
qed

theorem sng_ratio_clipped_witness:
  "(0::real) < 1 / 2 \<and> (0::real) \<le> 1 \<and>
   sng_step (\<lambda>params batch n. [([1, - 3], [0, 1])]) 2 (1 / 2) 1 [[10, 20]] () 1 =
     Inr [[9, 21]] \<and>
   sng_ratio (1 / 2) 1 (- 3) 1 = - 1 \<and>
   [[9, 21 :: real]] ! 0 ! 1 = [[10, 20]] ! 0 ! 1 - 1 * sng_ratio (1 / 2) 1 (- 3) 1"
proof -
  have s: "sng_step (\<lambda>params batch n. [([1, - 3], [0, 1])]) 2 (1 / 2) 1 [[10, 20]] () 1 =
     Inr [[9, 21]]"
    by (simp add: sng_step_def sng_tensor_def sng_ratio_def clip_def)
  from sng_ratio_clipped [of "1 / 2" 1 "\<lambda>params batch n. [([1, - 3], [0, 1])]" 2
      "[[10, 20]]" "()" 1 "[[9, 21]]" 0 "[1, - 3]" "[0, 1]" 1, OF _ _ s]
  have "sng_ratio (1 / 2) 1 (- 3) 1 = - 1 \<and>
    [[9, 21 :: real]] ! 0 ! 1 = [[10, 20]] ! 0 ! 1 - 1 * sng_ratio (1 / 2) 1 (- 3) 1"
    by simp
  with s show ?thesis by simp
qed

subsection \<open>C10: the device selector\<close>

text \<open>
  Claim C10. The device selector takes effect only when its value is \<^verbatim>\<open>"cpu"\<close>: then
  \<^verbatim>\<open>run_experiment\<close> sets \<^verbatim>\<open>jax_platform_name\<close> to \<^verbatim>\<open>cpu\<close>, once. For every other
  value, the documented \<^verbatim>\<open>"tpu"\<close> and \<^verbatim>\<open>"gpu"\<close> among them, no run of
  \<^verbatim>\<open>run_experiment\<close>, completed or not, calls \<^verbatim>\<open>jax.config.update\<close> at all, so the
  platform the backend chooses by default stays.
\<close>

theorem device_selector_cpu_only:
  "jax_config_updates (trace (run_experiment E h)) =
    (if device h = ''cpu'' then [(''jax_platform_name'', ''cpu'')] else [])"
proof (cases rule: run_experiment_cases [of h E])
  case (search_failed err)
  show ?thesis
    by (simp add: search_failed(3) projections_append projections_init_world
        projections_lr_search_events)
next
  case (zero_cadence lr h')
  show ?thesis
    by (simp add: zero_cadence(6) projections_append projections_init_world
        projections_lr_search_events projections_setup_events projections_step_events
        projections_Nil projections_Cons)
next
  case (completed lr h')
  have "stats_every_num_epochs h' \<noteq> 0 \<or> [0..<nat (num_epochs h')] = []"
    using completed(4) by (auto simp: completed(2) split: option.splits)
  then show ?thesis
    by (simp add: completed(5) projections_append projections_init_world
        projections_lr_search_events projections_setup_events jax_config_updates_epochs
        projections_Nil projections_Cons)
qed

end
